theory Spec2Isabelle
  imports Main "HOL-Library.Word"
begin

section \<open>The IBus wrapper of Dikt (src/ibus-sys/wrapper.c)\<close>

text \<open>
  The wrapper is a thin layer of C between the IBus library and the host application.
  Its own state is the file's static variables; everything else it does is a call into
  the library (IBus, GLib) or into a callback of the host. The embedding therefore has
  three parts:
  \<^item> the static variables, a record;
  \<^item> the library, which is not part of the repository: every call the wrapper makes is
    appended, with its arguments and its result, to a trace, and the result itself is
    read from a parameter \<open>E\<close> that may depend on the whole trace so far (so any
    behaviour of the daemon, including a disconnect between two calls, is some \<open>E\<close>);
  \<^item> the host, a state of an arbitrary type \<open>'h\<close> that only the callbacks transform.
\<close>

subsection \<open>Values\<close>

text \<open>A C pointer: null, or the address of an object.\<close>

datatype ptr = NULL | Ptr nat

text \<open>\<open>guint\<close> is 32 bits wide; \<open>gboolean\<close> is a C \<open>int\<close> with \<open>FALSE\<close> = 0, and a
  condition \<open>!e\<close> on it tests \<open>e = 0\<close>. Nothing is ever computed with a \<open>gboolean\<close> or
  with the status of \<open>ibus_dikt_init\<close>, so both are \<open>int\<close>.\<close>

type_synonym guint = "32 word"
type_synonym gboolean = int

definition FALSE :: gboolean where
  "FALSE = 0"

definition TRUE :: gboolean where
  "TRUE = 1"

text \<open>A \<open>const gchar *\<close> is a possibly null pointer to characters; \<open>strlen\<close> counts up
  to the first NUL.\<close>

type_synonym gchar_p = "string option"

definition strlen :: "string \<Rightarrow> nat" where
  "strlen cs = length (takeWhile (\<lambda>c. c \<noteq> CHR 0x00) cs)"

text \<open>The static type of the pointer handed to \<open>g_object_unref\<close> at each call site.\<close>

datatype gobject = IBusBus | IBusFactory | IBusComponent | IBusEngineDesc

text \<open>The arguments of \<open>ibus_component_new\<close> and of \<open>ibus_engine_desc_new\<close>, in
  the order of the library's prototypes.\<close>

record component_args =
  c_name :: string
  c_description :: string
  c_version :: string
  c_license :: string
  c_author :: string
  c_homepage :: string
  c_command_line :: string
  c_textdomain :: string

record engine_desc_args =
  e_name :: string
  e_longname :: string
  e_description :: string
  e_language :: string
  e_license :: string
  e_author :: string
  e_icon :: string
  e_layout :: string

subsection \<open>Library calls\<close>

text \<open>One constructor for each library function the wrapper calls: the arguments as
  passed and, last, the value the library returned (where the function returns one and
  the wrapper reads it). \<open>Fprintf_stderr\<close> keeps the format and the \<open>%u\<close> arguments.
  \<open>G_signal_connect\<close> always installs \<open>ibus_disconnected_cb\<close> with user data \<open>NULL\<close>;
  \<open>Ibus_factory_add_engine\<close> always passes \<open>IBUS_TYPE_DIKT_ENGINE\<close>.\<close>

datatype call =
    Ibus_init
  | Ibus_quit
  | Ibus_bus_new ptr
  | Ibus_bus_is_connected ptr gboolean
  | Ibus_bus_get_connection ptr ptr
  | Ibus_factory_new ptr ptr
  | G_signal_connect ptr string
  | Ibus_factory_add_engine ptr string
  | Ibus_bus_request_name ptr string guint guint
  | Ibus_component_new component_args ptr
  | Ibus_engine_desc_new engine_desc_args ptr
  | Ibus_component_add_engine ptr ptr
  | Ibus_bus_register_component ptr ptr
  | G_object_unref gobject ptr
  | Ibus_bus_set_global_engine ptr string gboolean
  | Ibus_bus_get_global_engine ptr ptr
  | Ibus_engine_desc_get_name ptr gchar_p
  | G_strdup string
  | Fprintf_stderr string "guint list"

text \<open>What the library returns, given the calls made so far and the arguments.
  \<open>dikt_version_flag\<close> is the compiler's \<open>-DDIKT_VERSION=...\<close>, if given.\<close>

record env =
  bus_new :: "call list \<Rightarrow> ptr"
  bus_is_connected :: "call list \<Rightarrow> ptr \<Rightarrow> gboolean"
  bus_get_connection :: "call list \<Rightarrow> ptr \<Rightarrow> ptr"
  factory_new :: "call list \<Rightarrow> ptr \<Rightarrow> ptr"
  bus_request_name :: "call list \<Rightarrow> ptr \<Rightarrow> string \<Rightarrow> guint \<Rightarrow> guint"
  component_new :: "call list \<Rightarrow> component_args \<Rightarrow> ptr"
  engine_desc_new :: "call list \<Rightarrow> engine_desc_args \<Rightarrow> ptr"
  bus_set_global_engine :: "call list \<Rightarrow> ptr \<Rightarrow> string \<Rightarrow> gboolean"
  bus_get_global_engine :: "call list \<Rightarrow> ptr \<Rightarrow> ptr"
  engine_desc_get_name :: "call list \<Rightarrow> ptr \<Rightarrow> gchar_p"
  dikt_version_flag :: "string option"

definition DIKT_VERSION :: "env \<Rightarrow> string" where
  "DIKT_VERSION E = (case dikt_version_flag E of None \<Rightarrow> ''unknown'' | Some v \<Rightarrow> v)"

definition IBUS_BUS_NAME_REQUESTED_PRIMARY :: guint where
  "IBUS_BUS_NAME_REQUESTED_PRIMARY = 1"

definition IBUS_BUS_NAME_REQUESTED_REPLACED :: guint where
  "IBUS_BUS_NAME_REQUESTED_REPLACED = 2"

subsection \<open>The static variables\<close>

text \<open>The callback types of wrapper.h: a host function from the context, the engine
  and the event's arguments, transforming the host's state.\<close>

type_synonym 'h callback_key_event =
  "ptr \<Rightarrow> ptr \<Rightarrow> guint \<Rightarrow> guint \<Rightarrow> guint \<Rightarrow> 'h \<Rightarrow> gboolean \<times> 'h"
type_synonym 'h callback_plain = "ptr \<Rightarrow> ptr \<Rightarrow> 'h \<Rightarrow> 'h"

record 'h state =
  global_context :: ptr
  global_key_event_cb :: "'h callback_key_event option"
  global_focus_in_cb :: "'h callback_plain option"
  global_focus_out_cb :: "'h callback_plain option"
  global_reset_cb :: "'h callback_plain option"
  global_enable_cb :: "'h callback_plain option"
  global_disable_cb :: "'h callback_plain option"
  global_bus :: ptr
  global_factory :: ptr
  daemon_ibus_initialized :: nat
  daemon_cached_bus :: ptr
  host :: 'h
  trace :: "call list"

text \<open>The state of a process at start: the initialisers of the static variables.\<close>

definition initial :: "'h \<Rightarrow> 'h state" where
  "initial h = \<lparr> global_context = NULL, global_key_event_cb = None,
     global_focus_in_cb = None, global_focus_out_cb = None, global_reset_cb = None,
     global_enable_cb = None, global_disable_cb = None, global_bus = NULL,
     global_factory = NULL, daemon_ibus_initialized = 0, daemon_cached_bus = NULL,
     host = h, trace = [] \<rparr>"

definition emit :: "call \<Rightarrow> 'h state \<Rightarrow> 'h state" where
  "emit c s = s\<lparr>trace := trace s @ [c]\<rparr>"

subsection \<open>The engine's virtual methods\<close>

definition ibus_dikt_engine_process_key_event ::
  "ptr \<Rightarrow> guint \<Rightarrow> guint \<Rightarrow> guint \<Rightarrow> 'h state \<Rightarrow> gboolean \<times> 'h state" where
  "ibus_dikt_engine_process_key_event engine keyval keycode modifiers s =
     (case global_key_event_cb s of
        Some cb \<Rightarrow>
          if global_context s \<noteq> NULL
          then (case cb (global_context s) engine keyval keycode modifiers (host s) of
                  (r, h') \<Rightarrow> (r, s\<lparr>host := h'\<rparr>))
          else (FALSE, s)
      | None \<Rightarrow> (FALSE, s))"

definition ibus_dikt_engine_focus_in :: "ptr \<Rightarrow> 'h state \<Rightarrow> 'h state" where
  "ibus_dikt_engine_focus_in engine s =
     (case global_focus_in_cb s of
        Some cb \<Rightarrow>
          if global_context s \<noteq> NULL
          then s\<lparr>host := cb (global_context s) engine (host s)\<rparr>
          else s
      | None \<Rightarrow> s)"

definition ibus_dikt_engine_focus_out :: "ptr \<Rightarrow> 'h state \<Rightarrow> 'h state" where
  "ibus_dikt_engine_focus_out engine s =
     (case global_focus_out_cb s of
        Some cb \<Rightarrow>
          if global_context s \<noteq> NULL
          then s\<lparr>host := cb (global_context s) engine (host s)\<rparr>
          else s
      | None \<Rightarrow> s)"

definition ibus_dikt_engine_reset :: "ptr \<Rightarrow> 'h state \<Rightarrow> 'h state" where
  "ibus_dikt_engine_reset engine s =
     (case global_reset_cb s of
        Some cb \<Rightarrow>
          if global_context s \<noteq> NULL
          then s\<lparr>host := cb (global_context s) engine (host s)\<rparr>
          else s
      | None \<Rightarrow> s)"

definition ibus_dikt_engine_enable :: "ptr \<Rightarrow> 'h state \<Rightarrow> 'h state" where
  "ibus_dikt_engine_enable engine s =
     (case global_enable_cb s of
        Some cb \<Rightarrow>
          if global_context s \<noteq> NULL
          then s\<lparr>host := cb (global_context s) engine (host s)\<rparr>
          else s
      | None \<Rightarrow> s)"

definition ibus_dikt_engine_disable :: "ptr \<Rightarrow> 'h state \<Rightarrow> 'h state" where
  "ibus_dikt_engine_disable engine s =
     (case global_disable_cb s of
        Some cb \<Rightarrow>
          if global_context s \<noteq> NULL
          then s\<lparr>host := cb (global_context s) engine (host s)\<rparr>
          else s
      | None \<Rightarrow> s)"

definition ibus_disconnected_cb :: "ptr \<Rightarrow> ptr \<Rightarrow> 'h state \<Rightarrow> 'h state" where
  "ibus_disconnected_cb bus user_data s = emit Ibus_quit s"

definition ibus_dikt_set_callback ::
  "ptr \<Rightarrow> 'h callback_key_event option \<Rightarrow> 'h callback_plain option \<Rightarrow>
   'h callback_plain option \<Rightarrow> 'h callback_plain option \<Rightarrow> 'h callback_plain option \<Rightarrow>
   'h callback_plain option \<Rightarrow> 'h state \<Rightarrow> 'h state" where
  "ibus_dikt_set_callback ctx key_event_cb focus_in_cb focus_out_cb reset_cb enable_cb
     disable_cb s =
     s\<lparr>global_context := ctx, global_key_event_cb := key_event_cb,
       global_focus_in_cb := focus_in_cb, global_focus_out_cb := focus_out_cb,
       global_reset_cb := reset_cb, global_enable_cb := enable_cb,
       global_disable_cb := disable_cb\<rparr>"

subsection \<open>Bus and factory lifecycle\<close>

definition dikt_component :: "env \<Rightarrow> component_args" where
  "dikt_component E = \<lparr> c_name = ''org.freedesktop.IBus.Dikt'',
     c_description = ''Dikt Speech-to-Text'', c_version = DIKT_VERSION E,
     c_license = ''MIT'', c_author = ''Dikt Team'',
     c_homepage = ''https://github.com/rohithmahesh3/Dikt'', c_command_line = '''',
     c_textdomain = ''dikt-ibus'' \<rparr>"

definition dikt_engine_desc :: engine_desc_args where
  "dikt_engine_desc = \<lparr> e_name = ''dikt'', e_longname = ''Dikt'',
     e_description = ''Dikt speech-to-text dictation'', e_language = ''other'',
     e_license = ''MIT'', e_author = ''Dikt Team'', e_icon = ''dikt'',
     e_layout = ''default'' \<rparr>"

text \<open>The tail of \<open>ibus_dikt_init\<close>, from \<open>g_signal_connect\<close> on: every check has
  passed.\<close>

definition ibus_dikt_init_publish ::
  "env \<Rightarrow> bool \<Rightarrow> ptr \<Rightarrow> ptr \<Rightarrow> 'h state \<Rightarrow> int \<times> 'h state" where
  "ibus_dikt_init_publish E ibus_mode bus factory s4 =
     (let s5 = emit (G_signal_connect bus ''disconnected'') s4;
          s6 = emit (Ibus_factory_add_engine factory ''dikt'') s5;
          s7 = s6\<lparr>global_bus := bus, global_factory := factory\<rparr>
      in if ibus_mode
         then
           (let result = bus_request_name E (trace s7) bus ''org.freedesktop.IBus.Dikt'' 0;
                s8 = emit (Ibus_bus_request_name bus ''org.freedesktop.IBus.Dikt'' 0 result) s7
            in if result \<noteq> IBUS_BUS_NAME_REQUESTED_PRIMARY \<and>
                  result \<noteq> IBUS_BUS_NAME_REQUESTED_REPLACED
               then (0, emit (Fprintf_stderr
                      ''Warning: Failed to acquire IBus name: %u\<newline>'' [result]) s8)
               else (0, s8))
         else
           (let component = component_new E (trace s7) (dikt_component E);
                s8 = emit (Ibus_component_new (dikt_component E) component) s7;
                desc = engine_desc_new E (trace s8) dikt_engine_desc;
                s9 = emit (Ibus_engine_desc_new dikt_engine_desc desc) s8;
                s10 = emit (Ibus_component_add_engine component desc) s9;
                s11 = emit (Ibus_bus_register_component bus component) s10
            in (0, emit (G_object_unref IBusComponent component) s11)))"

definition ibus_dikt_init :: "env \<Rightarrow> bool \<Rightarrow> 'h state \<Rightarrow> int \<times> 'h state" where
  "ibus_dikt_init E ibus_mode s =
     (let s0 = emit Ibus_init s;
          bus = bus_new E (trace s0);
          s1 = emit (Ibus_bus_new bus) s0
      in if bus = NULL
         then (1, emit (Fprintf_stderr ''Failed to create IBus bus\<newline>'' []) s1)
         else
           (let connected = bus_is_connected E (trace s1) bus;
                s2 = emit (Ibus_bus_is_connected bus connected) s1
            in if connected = FALSE
               then (2, emit (G_object_unref IBusBus bus)
                      (emit (Fprintf_stderr ''IBus daemon not running\<newline>'' []) s2))
               else
                 (let conn = bus_get_connection E (trace s2) bus;
                      s3 = emit (Ibus_bus_get_connection bus conn) s2
                  in if conn = NULL
                     then (3, emit (G_object_unref IBusBus bus)
                            (emit (Fprintf_stderr ''IBus bus has no connection\<newline>'' [])
                               s3))
                     else
                       (let factory = factory_new E (trace s3) conn;
                            s4 = emit (Ibus_factory_new conn factory) s3
                        in if factory = NULL
                           then (4, emit (G_object_unref IBusBus bus)
                                  (emit (Fprintf_stderr
                                     ''Failed to create IBus factory\<newline>'' []) s4))
                           else ibus_dikt_init_publish E ibus_mode bus factory s4))))"

definition ibus_dikt_cleanup :: "'h state \<Rightarrow> 'h state" where
  "ibus_dikt_cleanup s =
     (let s1 = (if global_factory s \<noteq> NULL
                then (emit (G_object_unref IBusFactory (global_factory s)) s)
                       \<lparr>global_factory := NULL\<rparr>
                else s)
      in if global_bus s1 \<noteq> NULL
         then (emit (G_object_unref IBusBus (global_bus s1)) s1)\<lparr>global_bus := NULL\<rparr>
         else s1)"

subsection \<open>Control surface\<close>

text \<open>The condition of \<open>ibus_dikt_set_global_engine\<close> is evaluated left to right and
  stops at the first true disjunct: \<open>ibus_bus_is_connected\<close> is called only when both
  pointers are non-null.\<close>

definition ibus_dikt_set_global_engine ::
  "env \<Rightarrow> gchar_p \<Rightarrow> 'h state \<Rightarrow> gboolean \<times> 'h state" where
  "ibus_dikt_set_global_engine E engine_name s =
     (if global_bus s = NULL then (FALSE, s)
      else case engine_name of
        None \<Rightarrow> (FALSE, s)
      | Some name \<Rightarrow>
          (let connected = bus_is_connected E (trace s) (global_bus s);
               s1 = emit (Ibus_bus_is_connected (global_bus s) connected) s
           in if connected = FALSE then (FALSE, s1)
              else
                (let r = bus_set_global_engine E (trace s1) (global_bus s) name
                 in (r, emit (Ibus_bus_set_global_engine (global_bus s) name r) s1))))"

text \<open>The part common to both \<open>get_global_engine_name\<close> functions, from
  \<open>ibus_bus_get_global_engine\<close> on.\<close>

definition read_global_engine_name ::
  "env \<Rightarrow> ptr \<Rightarrow> 'h state \<Rightarrow> gchar_p \<times> 'h state" where
  "read_global_engine_name E bus s =
     (let desc = bus_get_global_engine E (trace s) bus;
          s1 = emit (Ibus_bus_get_global_engine bus desc) s
      in if desc = NULL then (None, s1)
         else
           (let name = engine_desc_get_name E (trace s1) desc;
                s2 = emit (Ibus_engine_desc_get_name desc name) s1;
                s3 = (case name of Some n \<Rightarrow> emit (G_strdup n) s2 | None \<Rightarrow> s2)
            in (name, emit (G_object_unref IBusEngineDesc desc) s3)))"

definition ibus_dikt_get_global_engine_name ::
  "env \<Rightarrow> 'h state \<Rightarrow> gchar_p \<times> 'h state" where
  "ibus_dikt_get_global_engine_name E s =
     (if global_bus s = NULL then (None, s)
      else
        (let connected = bus_is_connected E (trace s) (global_bus s);
             s1 = emit (Ibus_bus_is_connected (global_bus s) connected) s
         in if connected = FALSE then (None, s1)
            else read_global_engine_name E (global_bus s) s1))"

subsection \<open>Daemon bus cache\<close>

text \<open>The one-time block at the head of \<open>ibus_dikt_daemon_get_bus\<close>:
  \<open>g_once_init_enter\<close> lets the first caller in, \<open>g_once_init_leave\<close> stores 1.\<close>

definition daemon_init_once :: "'h state \<Rightarrow> 'h state" where
  "daemon_init_once s =
     (if daemon_ibus_initialized s = 0
      then (emit Ibus_init s)\<lparr>daemon_ibus_initialized := 1\<rparr>
      else s)"

text \<open>The body follows the source statement by statement. Both conditions that call
  \<open>ibus_bus_is_connected\<close> test the pointer first and stop there when it is null, so
  the call is made (and recorded) only for a non-null bus. \<open>s2\<close> is the state after the
  stale handle is dropped, \<open>s3\<close> after \<open>daemon_cached_bus = ibus_bus_new()\<close>.\<close>

definition ibus_dikt_daemon_get_bus :: "env \<Rightarrow> 'h state \<Rightarrow> ptr \<times> 'h state" where
  "ibus_dikt_daemon_get_bus E s =
     (let s0 = daemon_init_once s;
          connected = (if daemon_cached_bus s0 \<noteq> NULL
                       then bus_is_connected E (trace s0) (daemon_cached_bus s0)
                       else FALSE);
          s1 = (if daemon_cached_bus s0 \<noteq> NULL
                then emit (Ibus_bus_is_connected (daemon_cached_bus s0) connected) s0
                else s0)
      in if daemon_cached_bus s0 \<noteq> NULL \<and> connected \<noteq> FALSE
         then (daemon_cached_bus s1, s1)
         else
           (let s2 = (if daemon_cached_bus s1 \<noteq> NULL
                      then (emit (G_object_unref IBusBus (daemon_cached_bus s1)) s1)
                             \<lparr>daemon_cached_bus := NULL\<rparr>
                      else s1);
                fresh = bus_new E (trace s2);
                s3 = (emit (Ibus_bus_new fresh) s2)\<lparr>daemon_cached_bus := fresh\<rparr>;
                connected' = (if fresh \<noteq> NULL
                              then bus_is_connected E (trace s3) fresh else FALSE);
                s4 = (if fresh \<noteq> NULL
                      then emit (Ibus_bus_is_connected fresh connected') s3 else s3)
            in if fresh = NULL \<or> connected' = FALSE
               then (NULL,
                     if daemon_cached_bus s4 \<noteq> NULL
                     then (emit (G_object_unref IBusBus (daemon_cached_bus s4)) s4)
                            \<lparr>daemon_cached_bus := NULL\<rparr>
                     else s4)
               else (daemon_cached_bus s4, s4)))"

definition ibus_dikt_daemon_set_global_engine ::
  "env \<Rightarrow> gchar_p \<Rightarrow> 'h state \<Rightarrow> gboolean \<times> 'h state" where
  "ibus_dikt_daemon_set_global_engine E engine_name s =
     (case engine_name of
        None \<Rightarrow> (FALSE, s)
      | Some name \<Rightarrow>
          if strlen name = 0 then (FALSE, s)
          else
            (case ibus_dikt_daemon_get_bus E s of
               (bus, s1) \<Rightarrow>
                 if bus = NULL then (FALSE, s1)
                 else
                   (let r = bus_set_global_engine E (trace s1) bus name
                    in (r, emit (Ibus_bus_set_global_engine bus name r) s1))))"

definition ibus_dikt_daemon_get_global_engine_name ::
  "env \<Rightarrow> 'h state \<Rightarrow> gchar_p \<times> 'h state" where
  "ibus_dikt_daemon_get_global_engine_name E s =
     (case ibus_dikt_daemon_get_bus E s of
        (bus, s1) \<Rightarrow>
          if bus = NULL then (None, s1) else read_global_engine_name E bus s1)"

subsection \<open>Sequences of calls\<close>

text \<open>Drivers for the properties below, not part of the wrapper: a program that calls
  the control surface of the main process (respectively of the daemon) a number of
  times, and the results it sees.\<close>

datatype cs_op = Set_global_engine gchar_p | Get_global_engine_name | Cleanup

datatype cs_result = Set_returned gboolean | Get_returned gchar_p | Cleanup_returned

fun cs_step :: "env \<Rightarrow> cs_op \<Rightarrow> 'h state \<Rightarrow> cs_result \<times> 'h state" where
  "cs_step E (Set_global_engine engine_name) s =
     (case ibus_dikt_set_global_engine E engine_name s of (r, s') \<Rightarrow> (Set_returned r, s'))"
| "cs_step E Get_global_engine_name s =
     (case ibus_dikt_get_global_engine_name E s of (r, s') \<Rightarrow> (Get_returned r, s'))"
| "cs_step E Cleanup s = (Cleanup_returned, ibus_dikt_cleanup s)"

fun run_cs :: "env \<Rightarrow> cs_op list \<Rightarrow> 'h state \<Rightarrow> cs_result list \<times> 'h state" where
  "run_cs E [] s = ([], s)"
| "run_cs E (c # cs) s =
     (case cs_step E c s of (r, s1) \<Rightarrow>
        (case run_cs E cs s1 of (rs, s2) \<Rightarrow> (r # rs, s2)))"

fun refused :: "cs_op \<Rightarrow> cs_result" where
  "refused (Set_global_engine engine_name) = Set_returned FALSE"
| "refused Get_global_engine_name = Get_returned None"
| "refused Cleanup = Cleanup_returned"

datatype daemon_op = Daemon_set_global_engine gchar_p | Daemon_get_global_engine_name

datatype daemon_result = Daemon_set_returned gboolean | Daemon_get_returned gchar_p

fun daemon_step :: "env \<Rightarrow> daemon_op \<Rightarrow> 'h state \<Rightarrow> daemon_result \<times> 'h state" where
  "daemon_step E (Daemon_set_global_engine engine_name) s =
     (case ibus_dikt_daemon_set_global_engine E engine_name s of
        (r, s') \<Rightarrow> (Daemon_set_returned r, s'))"
| "daemon_step E Daemon_get_global_engine_name s =
     (case ibus_dikt_daemon_get_global_engine_name E s of
        (r, s') \<Rightarrow> (Daemon_get_returned r, s'))"

fun run_daemon ::
  "env \<Rightarrow> daemon_op list \<Rightarrow> 'h state \<Rightarrow> daemon_result list \<times> 'h state" where
  "run_daemon E [] s = ([], s)"
| "run_daemon E (c # cs) s =
     (case daemon_step E c s of (r, s1) \<Rightarrow>
        (case run_daemon E cs s1 of (rs, s2) \<Rightarrow> (r # rs, s2)))"

subsection \<open>Bus handles in a trace\<close>

text \<open>A bus handle is acquired by an \<open>ibus_bus_new\<close> that returns non-null and released
  by a \<open>g_object_unref\<close> on a bus. \<open>buses_held\<close> is the number of handles acquired and
  not yet released at the end of a trace, \<open>held_peak n\<close> the largest number held at any
  point of it when \<open>n\<close> were held at its start, \<open>bus_new_count\<close> the number of calls of
  \<open>ibus_bus_new\<close>. The daemon's cache is consistent with its trace when it holds a
  handle exactly if one is outstanding and never more than one was.\<close>

fun bus_delta :: "call \<Rightarrow> int" where
  "bus_delta (Ibus_bus_new b) = (if b = NULL then 0 else 1)"
| "bus_delta (G_object_unref k p) = (if k = IBusBus then - 1 else 0)"
| "bus_delta c = 0"

definition buses_held :: "call list \<Rightarrow> int" where
  "buses_held t = sum_list (map bus_delta t)"

fun held_peak :: "int \<Rightarrow> call list \<Rightarrow> int" where
  "held_peak n [] = n"
| "held_peak n (c # cs) = max n (held_peak (n + bus_delta c) cs)"

fun is_bus_new :: "call \<Rightarrow> bool" where
  "is_bus_new (Ibus_bus_new b) = True"
| "is_bus_new c = False"

definition bus_new_count :: "call list \<Rightarrow> nat" where
  "bus_new_count t = length (filter is_bus_new t)"

definition daemon_cache_inv :: "'h state \<Rightarrow> bool" where
  "daemon_cache_inv s \<longleftrightarrow>
     buses_held (trace s) = (if daemon_cached_bus s = NULL then 0 else 1) \<and>
     held_peak 0 (trace s) \<le> 1"

subsection \<open>Concrete hosts and libraries\<close>

text \<open>A host whose state is the list of events it has seen, with the key callback of
  the key-forwarding scenario: it consumes the space key only.\<close>

definition host_key_cb :: "string list callback_key_event" where
  "host_key_cb ctx engine keyval keycode modifiers h =
     (if keyval = 0x20 then TRUE else FALSE, h @ [''key''])"

definition host_plain_cb :: "string \<Rightarrow> string list callback_plain" where
  "host_plain_cb tag ctx engine h = h @ [tag]"

definition installed :: "string list state" where
  "installed = ibus_dikt_set_callback (Ptr 7) (Some host_key_cb)
     (Some (host_plain_cb ''focus_in'')) (Some (host_plain_cb ''focus_out''))
     (Some (host_plain_cb ''reset'')) (Some (host_plain_cb ''enable''))
     (Some (host_plain_cb ''disable'')) (initial [])"

text \<open>A library in which every call succeeds: the daemon is running, the name request
  makes the process the primary owner, the global engine is \<open>xkb:us::eng\<close>.\<close>

definition mock_env :: env where
  "mock_env = \<lparr> bus_new = (\<lambda>t. Ptr 1), bus_is_connected = (\<lambda>t b. TRUE),
     bus_get_connection = (\<lambda>t b. Ptr 2), factory_new = (\<lambda>t c. Ptr 3),
     bus_request_name = (\<lambda>t b n f. 1), component_new = (\<lambda>t a. Ptr 4),
     engine_desc_new = (\<lambda>t a. Ptr 5), bus_set_global_engine = (\<lambda>t b n. TRUE),
     bus_get_global_engine = (\<lambda>t b. Ptr 6),
     engine_desc_get_name = (\<lambda>t d. Some ''xkb:us::eng''), dikt_version_flag = None \<rparr>"

text \<open>A library whose first bus is seen disconnected once six calls have been made,
  and which hands out a new bus each time.\<close>

definition flaky_env :: env where
  "flaky_env = mock_env\<lparr> bus_new := (\<lambda>t. Ptr (Suc (bus_new_count t))),
     bus_is_connected := (\<lambda>t b. if b = Ptr 1 \<and> 6 \<le> length t then FALSE else TRUE) \<rparr>"

section \<open>Properties\<close>

subsection \<open>Basic facts\<close>

lemma TRUE_neq_FALSE [simp]: "TRUE \<noteq> FALSE" "FALSE \<noteq> TRUE"
  by (simp_all add: TRUE_def FALSE_def)

lemma trace_emit [simp]: "trace (emit c s) = trace s @ [c]"
  by (simp add: emit_def)

lemma globals_emit [simp]:
  "global_bus (emit c s) = global_bus s"
  "global_factory (emit c s) = global_factory s"
  "daemon_cached_bus (emit c s) = daemon_cached_bus s"
  "daemon_ibus_initialized (emit c s) = daemon_ibus_initialized s"
  by (simp_all add: emit_def)

lemma installed_simps:
  "global_context installed = Ptr 7"
  "global_key_event_cb installed = Some host_key_cb"
  "global_focus_in_cb installed = Some (host_plain_cb ''focus_in'')"
  "global_focus_out_cb installed = Some (host_plain_cb ''focus_out'')"
  "global_reset_cb installed = Some (host_plain_cb ''reset'')"
  "global_enable_cb installed = Some (host_plain_cb ''enable'')"
  "global_disable_cb installed = Some (host_plain_cb ''disable'')"
  "host installed = []"
  by (simp_all add: installed_def ibus_dikt_set_callback_def initial_def)

lemma init_publish_status [simp]:
  "fst (ibus_dikt_init_publish E ibus_mode bus factory s) = 0"
  by (simp add: ibus_dikt_init_publish_def Let_def)

lemma init_publish_trace_prefix:
  "trace (snd (ibus_dikt_init_publish E ibus_mode bus factory s)) =
     trace s @ [G_signal_connect bus ''disconnected'', Ibus_factory_add_engine factory ''dikt'']
       @ drop (length (trace s) + 2)
           (trace (snd (ibus_dikt_init_publish E ibus_mode bus factory s)))"
  by (simp add: ibus_dikt_init_publish_def Let_def)

subsection \<open>Staged status of init\<close>

text \<open>
  C1. \<open>ibus_dikt_init\<close> asks the library, in this order, for a bus, whether the bus is
  connected, for the bus's connection, and for a factory on that connection. Its status
  is 1, 2, 3 or 4 for the first of these that fails and 0 when none does. The trace
  shows the order: on a failure it ends with the failed call, the message on standard
  error and (from the second stage on) the release of the bus, and no later stage is
  attempted; on success it starts with the four calls.
\<close>

theorem init_status:
  "let t0 = trace s @ [Ibus_init];
       bus = bus_new E t0;
       t1 = t0 @ [Ibus_bus_new bus];
       connected = bus_is_connected E t1 bus;
       t2 = t1 @ [Ibus_bus_is_connected bus connected];
       conn = bus_get_connection E t2 bus;
       t3 = t2 @ [Ibus_bus_get_connection bus conn];
       factory = factory_new E t3 conn;
       t4 = t3 @ [Ibus_factory_new conn factory];
       s' = snd (ibus_dikt_init E ibus_mode s)
   in fst (ibus_dikt_init E ibus_mode s) =
        (if bus = NULL then 1
         else if connected = FALSE then 2
         else if conn = NULL then 3
         else if factory = NULL then 4
         else 0) \<and>
      (if bus = NULL
       then trace s' = t1 @ [Fprintf_stderr ''Failed to create IBus bus\<newline>'' []]
       else if connected = FALSE
       then trace s' = t2 @ [Fprintf_stderr ''IBus daemon not running\<newline>'' [],
                             G_object_unref IBusBus bus]
       else if conn = NULL
       then trace s' = t3 @ [Fprintf_stderr ''IBus bus has no connection\<newline>'' [],
                             G_object_unref IBusBus bus]
       else if factory = NULL
       then trace s' = t4 @ [Fprintf_stderr ''Failed to create IBus factory\<newline>'' [],
                             G_object_unref IBusBus bus]
       else take (length t4) (trace s') = t4)"
  apply (simp add: ibus_dikt_init_def Let_def)
  apply (subst init_publish_trace_prefix)
  apply simp
  done

theorem init_status_witness:
  "fst (ibus_dikt_init (mock_env\<lparr>bus_new := \<lambda>t. NULL\<rparr>) True (initial ())) = 1 \<and>
   fst (ibus_dikt_init (mock_env\<lparr>bus_is_connected := \<lambda>t b. FALSE\<rparr>) True (initial ())) = 2 \<and>
   fst (ibus_dikt_init (mock_env\<lparr>bus_get_connection := \<lambda>t b. NULL\<rparr>) True (initial ())) = 3 \<and>
   fst (ibus_dikt_init (mock_env\<lparr>factory_new := \<lambda>t c. NULL\<rparr>) True (initial ())) = 4 \<and>
   fst (ibus_dikt_init mock_env True (initial ())) = 0 \<and>
   fst (ibus_dikt_init
     (mock_env\<lparr>bus_is_connected := \<lambda>t b. FALSE, factory_new := \<lambda>t c. NULL\<rparr>)
     False (initial ())) = 2"
  using init_status [of "initial ()" "mock_env\<lparr>bus_new := \<lambda>t. NULL\<rparr>" True]
    init_status [of "initial ()" "mock_env\<lparr>bus_is_connected := \<lambda>t b. FALSE\<rparr>" True]
    init_status [of "initial ()" "mock_env\<lparr>bus_get_connection := \<lambda>t b. NULL\<rparr>" True]
    init_status [of "initial ()" "mock_env\<lparr>factory_new := \<lambda>t c. NULL\<rparr>" True]
    init_status [of "initial ()" mock_env True]
    init_status [of "initial ()"
      "mock_env\<lparr>bus_is_connected := \<lambda>t b. FALSE, factory_new := \<lambda>t c. NULL\<rparr>" False]
  by (simp add: mock_env_def Let_def)

subsection \<open>Dispatch of engine events\<close>

text \<open>
  C2. For each of the six engine events and any engine instance: when the event's slot
  holds a callback and the context is not null, the callback is applied, once, to the
  context, the engine instance and the event's arguments, the host's state becomes the
  one the callback leaves and nothing else changes, and \<open>process_key_event\<close> returns
  the callback's value; when the slot or the context is null the state is unchanged and
  \<open>process_key_event\<close> returns \<open>FALSE\<close>.
\<close>

theorem engine_dispatch:
  "(\<forall>cb. global_key_event_cb s = Some cb \<and> global_context s \<noteq> NULL \<longrightarrow>
      ibus_dikt_engine_process_key_event engine keyval keycode modifiers s =
        (fst (cb (global_context s) engine keyval keycode modifiers (host s)),
         s\<lparr>host := snd (cb (global_context s) engine keyval keycode modifiers (host s))\<rparr>)) \<and>
   (\<forall>cb. global_focus_in_cb s = Some cb \<and> global_context s \<noteq> NULL \<longrightarrow>
      ibus_dikt_engine_focus_in engine s = s\<lparr>host := cb (global_context s) engine (host s)\<rparr>) \<and>
   (\<forall>cb. global_focus_out_cb s = Some cb \<and> global_context s \<noteq> NULL \<longrightarrow>
      ibus_dikt_engine_focus_out engine s = s\<lparr>host := cb (global_context s) engine (host s)\<rparr>) \<and>
   (\<forall>cb. global_reset_cb s = Some cb \<and> global_context s \<noteq> NULL \<longrightarrow>
      ibus_dikt_engine_reset engine s = s\<lparr>host := cb (global_context s) engine (host s)\<rparr>) \<and>
   (\<forall>cb. global_enable_cb s = Some cb \<and> global_context s \<noteq> NULL \<longrightarrow>
      ibus_dikt_engine_enable engine s = s\<lparr>host := cb (global_context s) engine (host s)\<rparr>) \<and>
   (\<forall>cb. global_disable_cb s = Some cb \<and> global_context s \<noteq> NULL \<longrightarrow>
      ibus_dikt_engine_disable engine s = s\<lparr>host := cb (global_context s) engine (host s)\<rparr>) \<and>
   (global_key_event_cb s = None \<or> global_context s = NULL \<longrightarrow>
      ibus_dikt_engine_process_key_event engine keyval keycode modifiers s = (FALSE, s)) \<and>
   (global_focus_in_cb s = None \<or> global_context s = NULL \<longrightarrow>
      ibus_dikt_engine_focus_in engine s = s) \<and>
   (global_focus_out_cb s = None \<or> global_context s = NULL \<longrightarrow>
      ibus_dikt_engine_focus_out engine s = s) \<and>
   (global_reset_cb s = None \<or> global_context s = NULL \<longrightarrow>
      ibus_dikt_engine_reset engine s = s) \<and>
   (global_enable_cb s = None \<or> global_context s = NULL \<longrightarrow>
      ibus_dikt_engine_enable engine s = s) \<and>
   (global_disable_cb s = None \<or> global_context s = NULL \<longrightarrow>
      ibus_dikt_engine_disable engine s = s)"
  by (simp add: ibus_dikt_engine_process_key_event_def ibus_dikt_engine_focus_in_def
      ibus_dikt_engine_focus_out_def ibus_dikt_engine_reset_def ibus_dikt_engine_enable_def
      ibus_dikt_engine_disable_def split: option.split prod.split)

theorem engine_dispatch_witness:
  "fst (ibus_dikt_engine_process_key_event (Ptr 3) 0x20 57 0 installed) = TRUE \<and>
   host (snd (ibus_dikt_engine_process_key_event (Ptr 3) 0x20 57 0 installed)) = [''key''] \<and>
   fst (ibus_dikt_engine_process_key_event (Ptr 3) 0x41 38 0 installed) = FALSE \<and>
   host (ibus_dikt_engine_focus_in (Ptr 3) installed) = [''focus_in''] \<and>
   host (ibus_dikt_engine_focus_out (Ptr 3) installed) = [''focus_out''] \<and>
   host (ibus_dikt_engine_reset (Ptr 3) installed) = [''reset''] \<and>
   host (ibus_dikt_engine_enable (Ptr 3) installed) = [''enable''] \<and>
   host (ibus_dikt_engine_disable (Ptr 3) installed) = [''disable''] \<and>
   ibus_dikt_engine_process_key_event (Ptr 3) 0 0 0 (initial ([] :: string list)) =
     (FALSE, initial []) \<and>
   ibus_dikt_engine_focus_in (Ptr 3) (initial ([] :: string list)) = initial [] \<and>
   ibus_dikt_engine_focus_out (Ptr 3) (initial ([] :: string list)) = initial [] \<and>
   ibus_dikt_engine_reset (Ptr 3) (initial ([] :: string list)) = initial [] \<and>
   ibus_dikt_engine_enable (Ptr 3) (initial ([] :: string list)) = initial [] \<and>
   ibus_dikt_engine_disable (Ptr 3) (initial ([] :: string list)) = initial []"
  using engine_dispatch [of installed "Ptr 3" "0x20" 57 0]
    engine_dispatch [of installed "Ptr 3" "0x41" 38 0]
    engine_dispatch [of "initial ([] :: string list)" "Ptr 3" 0 0 0]
  by (simp add: installed_simps host_key_cb_def host_plain_cb_def initial_def)

subsection \<open>Empty names on the daemon path\<close>

text \<open>
  C9. \<open>ibus_dikt_daemon_set_global_engine\<close> returns \<open>FALSE\<close> for a null name and for
  the empty string (more generally for any name of \<open>strlen\<close> 0), and leaves the whole
  state as it was: the cached bus is neither read nor replaced, the one-time
  initialisation does not run, and no library call is made.
\<close>

theorem daemon_set_rejects_empty:
  "ibus_dikt_daemon_set_global_engine E None s = (FALSE, s) \<and>
   ibus_dikt_daemon_set_global_engine E (Some '''') s = (FALSE, s) \<and>
   (\<forall>name. strlen name = 0 \<longrightarrow>
      ibus_dikt_daemon_set_global_engine E (Some name) s = (FALSE, s))"
  by (simp add: ibus_dikt_daemon_set_global_engine_def strlen_def)

theorem daemon_set_rejects_empty_witness:
  "strlen [CHR 0x00, CHR ''x''] = 0 \<and>
   ibus_dikt_daemon_set_global_engine mock_env (Some [CHR 0x00, CHR ''x'']) (initial ()) =
     (FALSE, initial ()) \<and>
   ibus_dikt_daemon_set_global_engine mock_env (Some '''') (initial ()) = (FALSE, initial ()) \<and>
   ibus_dikt_daemon_set_global_engine mock_env None (initial ()) = (FALSE, initial ())"
proof -
  have len: "strlen [CHR 0x00, CHR ''x''] = 0"
    by (simp add: strlen_def)
  from daemon_set_rejects_empty [of mock_env "initial ()"] len show ?thesis
    by blast
qed

subsection \<open>Self-registered mode\<close>

text \<open>
  C5. Every successful \<open>ibus_dikt_init\<close> in self-registered mode (\<open>ibus_mode\<close>
  false) makes, after the factory is set up, exactly these library calls and no other:
  it creates a component with name \<open>org.freedesktop.IBus.Dikt\<close>, description
  \<open>Dikt Speech-to-Text\<close>, the build's version (\<open>unknown\<close> when the build gives none),
  licence \<open>MIT\<close>, author \<open>Dikt Team\<close>, the project's URL as homepage, an empty command
  line and text domain \<open>dikt-ibus\<close>; it creates one engine description with name
  \<open>dikt\<close>, long name \<open>Dikt\<close>, description \<open>Dikt speech-to-text dictation\<close>, language
  \<open>other\<close>, licence \<open>MIT\<close>, author \<open>Dikt Team\<close>, icon \<open>dikt\<close> and layout
  \<open>default\<close>; it adds that description to the component, registers the component
  with the published bus, and drops its reference to the component as its last action.
\<close>

theorem self_registered_component:
  "fst (ibus_dikt_init E False s) = 0 \<Longrightarrow>
   \<exists>bus connected conn factory component desc.
     bus \<noteq> NULL \<and> factory \<noteq> NULL \<and>
     global_bus (snd (ibus_dikt_init E False s)) = bus \<and>
     global_factory (snd (ibus_dikt_init E False s)) = factory \<and>
     trace (snd (ibus_dikt_init E False s)) = trace s @
       [Ibus_init, Ibus_bus_new bus, Ibus_bus_is_connected bus connected,
        Ibus_bus_get_connection bus conn, Ibus_factory_new conn factory,
        G_signal_connect bus ''disconnected'', Ibus_factory_add_engine factory ''dikt'',
        Ibus_component_new
          \<lparr> c_name = ''org.freedesktop.IBus.Dikt'', c_description = ''Dikt Speech-to-Text'',
            c_version = (case dikt_version_flag E of None \<Rightarrow> ''unknown'' | Some v \<Rightarrow> v),
            c_license = ''MIT'', c_author = ''Dikt Team'',
            c_homepage = ''https://github.com/rohithmahesh3/Dikt'', c_command_line = '''',
            c_textdomain = ''dikt-ibus'' \<rparr> component,
        Ibus_engine_desc_new
          \<lparr> e_name = ''dikt'', e_longname = ''Dikt'',
            e_description = ''Dikt speech-to-text dictation'', e_language = ''other'',
            e_license = ''MIT'', e_author = ''Dikt Team'', e_icon = ''dikt'',
            e_layout = ''default'' \<rparr> desc,
        Ibus_component_add_engine component desc,
        Ibus_bus_register_component bus component,
        G_object_unref IBusComponent component]"
  by (simp add: ibus_dikt_init_def ibus_dikt_init_publish_def Let_def dikt_component_def
      dikt_engine_desc_def DIKT_VERSION_def emit_def split: if_splits)

theorem self_registered_component_witness:
  "fst (ibus_dikt_init mock_env False (initial ())) = 0 \<and>
   trace (snd (ibus_dikt_init mock_env False (initial ()))) =
       [Ibus_init, Ibus_bus_new (Ptr 1), Ibus_bus_is_connected (Ptr 1) TRUE,
        Ibus_bus_get_connection (Ptr 1) (Ptr 2), Ibus_factory_new (Ptr 2) (Ptr 3),
        G_signal_connect (Ptr 1) ''disconnected'', Ibus_factory_add_engine (Ptr 3) ''dikt'',
        Ibus_component_new
          \<lparr> c_name = ''org.freedesktop.IBus.Dikt'', c_description = ''Dikt Speech-to-Text'',
            c_version = ''unknown'',
            c_license = ''MIT'', c_author = ''Dikt Team'',
            c_homepage = ''https://github.com/rohithmahesh3/Dikt'', c_command_line = '''',
            c_textdomain = ''dikt-ibus'' \<rparr> (Ptr 4),
        Ibus_engine_desc_new
          \<lparr> e_name = ''dikt'', e_longname = ''Dikt'',
            e_description = ''Dikt speech-to-text dictation'', e_language = ''other'',
            e_license = ''MIT'', e_author = ''Dikt Team'', e_icon = ''dikt'',
            e_layout = ''default'' \<rparr> (Ptr 5),
        Ibus_component_add_engine (Ptr 4) (Ptr 5),
        Ibus_bus_register_component (Ptr 1) (Ptr 4),
        G_object_unref IBusComponent (Ptr 4)]"
proof -
  have ok: "fst (ibus_dikt_init mock_env False (initial ())) = 0"
    by (simp add: ibus_dikt_init_def mock_env_def Let_def)
  from self_registered_component [OF ok] ok show ?thesis
    by (simp add: ibus_dikt_init_def ibus_dikt_init_publish_def dikt_component_def
        dikt_engine_desc_def DIKT_VERSION_def mock_env_def initial_def Let_def)
qed

subsection \<open>Managed mode\<close>

text \<open>
  C6. In managed mode (\<open>ibus_mode\<close> true) the status of \<open>ibus_dikt_init\<close> does not
  depend on what the name request returns. When the four stages pass, init requests the
  name \<open>org.freedesktop.IBus.Dikt\<close> with flags 0 right after the factory is set up,
  writes the warning to standard error exactly when the result is neither 1 (primary
  owner) nor 2 (replaced), and returns 0 either way.
\<close>

theorem managed_name_request:
  "fst (ibus_dikt_init (E\<lparr>bus_request_name := f\<rparr>) True s) = fst (ibus_dikt_init E True s) \<and>
   (let t0 = trace s @ [Ibus_init];
        bus = bus_new E t0;
        t1 = t0 @ [Ibus_bus_new bus];
        connected = bus_is_connected E t1 bus;
        t2 = t1 @ [Ibus_bus_is_connected bus connected];
        conn = bus_get_connection E t2 bus;
        t3 = t2 @ [Ibus_bus_get_connection bus conn];
        factory = factory_new E t3 conn;
        t4 = t3 @ [Ibus_factory_new conn factory, G_signal_connect bus ''disconnected'',
                   Ibus_factory_add_engine factory ''dikt''];
        result = bus_request_name E t4 bus ''org.freedesktop.IBus.Dikt'' 0
    in bus \<noteq> NULL \<and> connected \<noteq> FALSE \<and> conn \<noteq> NULL \<and> factory \<noteq> NULL \<longrightarrow>
       fst (ibus_dikt_init E True s) = 0 \<and>
       trace (snd (ibus_dikt_init E True s)) =
         t4 @ [Ibus_bus_request_name bus ''org.freedesktop.IBus.Dikt'' 0 result] @
         (if result \<noteq> 1 \<and> result \<noteq> 2
          then [Fprintf_stderr ''Warning: Failed to acquire IBus name: %u\<newline>'' [result]]
          else []))"
  by (simp add: ibus_dikt_init_def ibus_dikt_init_publish_def Let_def
      IBUS_BUS_NAME_REQUESTED_PRIMARY_def IBUS_BUS_NAME_REQUESTED_REPLACED_def)

theorem managed_name_request_witness:
  "fst (ibus_dikt_init (mock_env\<lparr>bus_request_name := \<lambda>t b n fl. 3\<rparr>) True (initial ())) = 0 \<and>
   trace (snd (ibus_dikt_init (mock_env\<lparr>bus_request_name := \<lambda>t b n fl. 3\<rparr>) True
     (initial ()))) =
     [Ibus_init, Ibus_bus_new (Ptr 1), Ibus_bus_is_connected (Ptr 1) TRUE,
      Ibus_bus_get_connection (Ptr 1) (Ptr 2), Ibus_factory_new (Ptr 2) (Ptr 3),
      G_signal_connect (Ptr 1) ''disconnected'', Ibus_factory_add_engine (Ptr 3) ''dikt'',
      Ibus_bus_request_name (Ptr 1) ''org.freedesktop.IBus.Dikt'' 0 3,
      Fprintf_stderr ''Warning: Failed to acquire IBus name: %u\<newline>'' [3]] \<and>
   fst (ibus_dikt_init mock_env True (initial ())) = 0 \<and>
   trace (snd (ibus_dikt_init mock_env True (initial ()))) =
     [Ibus_init, Ibus_bus_new (Ptr 1), Ibus_bus_is_connected (Ptr 1) TRUE,
      Ibus_bus_get_connection (Ptr 1) (Ptr 2), Ibus_factory_new (Ptr 2) (Ptr 3),
      G_signal_connect (Ptr 1) ''disconnected'', Ibus_factory_add_engine (Ptr 3) ''dikt'',
      Ibus_bus_request_name (Ptr 1) ''org.freedesktop.IBus.Dikt'' 0 1]"
  using managed_name_request
      [where E = "mock_env\<lparr>bus_request_name := \<lambda>t b n fl. 3\<rparr>" and s = "initial ()"]
    managed_name_request [where E = mock_env and s = "initial ()"]
  by (simp add: mock_env_def initial_def Let_def)

subsection \<open>Failed init\<close>

lemma set_global_engine_no_bus:
  "global_bus s = NULL \<Longrightarrow> ibus_dikt_set_global_engine E engine_name s = (FALSE, s)"
  by (simp add: ibus_dikt_set_global_engine_def)

lemma get_global_engine_name_no_bus:
  "global_bus s = NULL \<Longrightarrow> ibus_dikt_get_global_engine_name E s = (None, s)"
  by (simp add: ibus_dikt_get_global_engine_name_def)

lemma init_failed_state:
  "fst (ibus_dikt_init E ibus_mode s) \<noteq> 0 \<Longrightarrow>
   snd (ibus_dikt_init E ibus_mode s) = s\<lparr>trace := trace (snd (ibus_dikt_init E ibus_mode s))\<rparr>"
  by (simp add: ibus_dikt_init_def Let_def emit_def split: if_splits)

lemma init_failed_trace:
  "fst (ibus_dikt_init E ibus_mode s) \<noteq> 0 \<Longrightarrow>
   \<exists>bus rest. trace (snd (ibus_dikt_init E ibus_mode s)) =
       trace s @ Ibus_init # Ibus_bus_new bus # rest \<and>
     (bus \<noteq> NULL \<longrightarrow> rest \<noteq> [] \<and> last rest = G_object_unref IBusBus bus)"
  by (simp add: ibus_dikt_init_def Let_def split: if_splits)

text \<open>
  C10. When \<open>ibus_dikt_init\<close> returns a nonzero status, the status is one of 1 to 4
  and nothing but the trace has changed: the published bus and factory are what they
  were, so null if they were null. The bus that init created, if any, has been released
  by the last call init made. From a state without published handles every later
  \<open>ibus_dikt_set_global_engine\<close> returns \<open>FALSE\<close> and every later
  \<open>ibus_dikt_get_global_engine_name\<close> returns null, without any library call.
\<close>

theorem failed_init_publishes_nothing:
  "fst (ibus_dikt_init E ibus_mode s) \<noteq> 0 \<Longrightarrow>
   (let s' = snd (ibus_dikt_init E ibus_mode s)
    in fst (ibus_dikt_init E ibus_mode s) \<in> {1, 2, 3, 4} \<and>
       s' = s\<lparr>trace := trace s'\<rparr> \<and>
       global_bus s' = global_bus s \<and> global_factory s' = global_factory s \<and>
       (\<exists>bus rest. trace s' = trace s @ Ibus_init # Ibus_bus_new bus # rest \<and>
          (bus \<noteq> NULL \<longrightarrow> rest \<noteq> [] \<and> last rest = G_object_unref IBusBus bus)) \<and>
       (global_bus s = NULL \<and> global_factory s = NULL \<longrightarrow>
          global_bus s' = NULL \<and> global_factory s' = NULL \<and>
          (\<forall>E' engine_name. ibus_dikt_set_global_engine E' engine_name s' = (FALSE, s')) \<and>
          (\<forall>E'. ibus_dikt_get_global_engine_name E' s' = (None, s'))))"
proof -
  assume failed: "fst (ibus_dikt_init E ibus_mode s) \<noteq> 0"
  define s' where "s' = snd (ibus_dikt_init E ibus_mode s)"
  have code: "fst (ibus_dikt_init E ibus_mode s) \<in> {1, 2, 3, 4}"
    using failed by (simp add: ibus_dikt_init_def Let_def split: if_splits)
  have same: "s' = s\<lparr>trace := trace s'\<rparr>"
    unfolding s'_def using failed by (rule init_failed_state)
  have bus: "global_bus s' = global_bus s" and fac: "global_factory s' = global_factory s"
    by (subst same, simp)+
  have released: "\<exists>bus rest. trace s' = trace s @ Ibus_init # Ibus_bus_new bus # rest \<and>
      (bus \<noteq> NULL \<longrightarrow> rest \<noteq> [] \<and> last rest = G_object_unref IBusBus bus)"
    unfolding s'_def using failed by (rule init_failed_trace)
  have later: "global_bus s = NULL \<and> global_factory s = NULL \<longrightarrow>
      global_bus s' = NULL \<and> global_factory s' = NULL \<and>
      (\<forall>E' engine_name. ibus_dikt_set_global_engine E' engine_name s' = (FALSE, s')) \<and>
      (\<forall>E'. ibus_dikt_get_global_engine_name E' s' = (None, s'))"
    using bus fac by (simp add: set_global_engine_no_bus get_global_engine_name_no_bus)
  from code same bus fac released later show ?thesis
    unfolding s'_def [symmetric] Let_def by blast
qed

theorem failed_init_publishes_nothing_witness:
  "fst (ibus_dikt_init (mock_env\<lparr>factory_new := \<lambda>t c. NULL\<rparr>) True (initial ())) = 4 \<and>
   snd (ibus_dikt_init (mock_env\<lparr>factory_new := \<lambda>t c. NULL\<rparr>) True (initial ())) =
     (initial ())\<lparr>trace :=
       [Ibus_init, Ibus_bus_new (Ptr 1), Ibus_bus_is_connected (Ptr 1) TRUE,
        Ibus_bus_get_connection (Ptr 1) (Ptr 2), Ibus_factory_new (Ptr 2) NULL,
        Fprintf_stderr ''Failed to create IBus factory\<newline>'' [],
        G_object_unref IBusBus (Ptr 1)]\<rparr> \<and>
   fst (ibus_dikt_set_global_engine mock_env (Some ''dikt'')
     (snd (ibus_dikt_init (mock_env\<lparr>factory_new := \<lambda>t c. NULL\<rparr>) True (initial ())))) = FALSE \<and>
   fst (ibus_dikt_get_global_engine_name mock_env
     (snd (ibus_dikt_init (mock_env\<lparr>factory_new := \<lambda>t c. NULL\<rparr>) True (initial ())))) = None"
proof -
  let ?E = "mock_env\<lparr>factory_new := \<lambda>t c. NULL\<rparr>"
  have code: "fst (ibus_dikt_init ?E True (initial ())) = 4"
    by (simp add: ibus_dikt_init_def mock_env_def Let_def)
  then have failed: "fst (ibus_dikt_init ?E True (initial ())) \<noteq> 0"
    by simp
  have tr: "trace (snd (ibus_dikt_init ?E True (initial ()))) =
       [Ibus_init, Ibus_bus_new (Ptr 1), Ibus_bus_is_connected (Ptr 1) TRUE,
        Ibus_bus_get_connection (Ptr 1) (Ptr 2), Ibus_factory_new (Ptr 2) NULL,
        Fprintf_stderr ''Failed to create IBus factory\<newline>'' [],
        G_object_unref IBusBus (Ptr 1)]"
    by (simp add: ibus_dikt_init_def mock_env_def Let_def initial_def)
  have fresh: "global_bus (initial ()) = NULL \<and> global_factory (initial ()) = NULL"
    by (simp add: initial_def)
  note main = failed_init_publishes_nothing [OF failed, unfolded Let_def]
  from main have same: "snd (ibus_dikt_init ?E True (initial ())) =
      (initial ())\<lparr>trace := trace (snd (ibus_dikt_init ?E True (initial ())))\<rparr>"
    by blast
  from main fresh have
    setf: "ibus_dikt_set_global_engine mock_env (Some ''dikt'')
        (snd (ibus_dikt_init ?E True (initial ()))) =
      (FALSE, snd (ibus_dikt_init ?E True (initial ())))" and
    getn: "ibus_dikt_get_global_engine_name mock_env
        (snd (ibus_dikt_init ?E True (initial ()))) =
      (None, snd (ibus_dikt_init ?E True (initial ())))"
    by blast+
  from same tr have "snd (ibus_dikt_init ?E True (initial ())) =
     (initial ())\<lparr>trace :=
       [Ibus_init, Ibus_bus_new (Ptr 1), Ibus_bus_is_connected (Ptr 1) TRUE,
        Ibus_bus_get_connection (Ptr 1) (Ptr 2), Ibus_factory_new (Ptr 2) NULL,
        Fprintf_stderr ''Failed to create IBus factory\<newline>'' [],
        G_object_unref IBusBus (Ptr 1)]\<rparr>"
    by metis
  with code setf getn show ?thesis
    by simp
qed

subsection \<open>Cleanup\<close>

lemma cleanup_nothing_held:
  "global_factory s = NULL \<Longrightarrow> global_bus s = NULL \<Longrightarrow> ibus_dikt_cleanup s = s"
  by (simp add: ibus_dikt_cleanup_def)

lemma cleanup_globals [simp]:
  "global_factory (ibus_dikt_cleanup s) = NULL" "global_bus (ibus_dikt_cleanup s) = NULL"
  by (simp_all add: ibus_dikt_cleanup_def Let_def emit_def)

lemma cleanup_trace:
  "trace (ibus_dikt_cleanup s) = trace s @
     (if global_factory s \<noteq> NULL then [G_object_unref IBusFactory (global_factory s)] else []) @
     (if global_bus s \<noteq> NULL then [G_object_unref IBusBus (global_bus s)] else [])"
  by (simp add: ibus_dikt_cleanup_def Let_def emit_def)

lemma cleanup_twice: "ibus_dikt_cleanup (ibus_dikt_cleanup s) = ibus_dikt_cleanup s"
  by (simp add: cleanup_nothing_held)

lemma init_ok_globals:
  "fst (ibus_dikt_init E ibus_mode s) = 0 \<Longrightarrow>
   global_factory (snd (ibus_dikt_init E ibus_mode s)) \<noteq> NULL \<and>
   global_bus (snd (ibus_dikt_init E ibus_mode s)) \<noteq> NULL"
  by (simp add: ibus_dikt_init_def ibus_dikt_init_publish_def Let_def emit_def
      split: if_splits)

lemma run_cs_no_bus:
  "global_factory s = NULL \<Longrightarrow> global_bus s = NULL \<Longrightarrow> run_cs E cs s = (map refused cs, s)"
proof (induction cs)
  case Nil
  show ?case by simp
next
  case (Cons c cs)
  then have "cs_step E c s = (refused c, s)"
    by (cases c)
      (simp_all add: set_global_engine_no_bus get_global_engine_name_no_bus
        cleanup_nothing_held)
  with Cons show ?case by simp
qed

text \<open>
  C7. \<open>ibus_dikt_cleanup\<close> releases the published factory, then the published bus,
  each only if non-null, and leaves both null; a second call in a row changes nothing.
  After a successful init two calls in a row release the factory and the bus exactly
  once each. After a failed init, cleanup releases exactly what was published before
  that init (the bus the failed init created was never published, so it is not released
  again), and from a state without published handles it does nothing.
\<close>

theorem cleanup_idempotent:
  "(let s1 = ibus_dikt_cleanup s
    in global_factory s1 = NULL \<and> global_bus s1 = NULL \<and>
       trace s1 = trace s @
         (if global_factory s \<noteq> NULL
          then [G_object_unref IBusFactory (global_factory s)] else []) @
         (if global_bus s \<noteq> NULL then [G_object_unref IBusBus (global_bus s)] else []) \<and>
       ibus_dikt_cleanup s1 = s1) \<and>
   (fst (ibus_dikt_init E ibus_mode s) = 0 \<longrightarrow>
      (let s1 = snd (ibus_dikt_init E ibus_mode s)
       in global_factory s1 \<noteq> NULL \<and> global_bus s1 \<noteq> NULL \<and>
          trace (ibus_dikt_cleanup (ibus_dikt_cleanup s1)) =
            trace s1 @ [G_object_unref IBusFactory (global_factory s1),
                        G_object_unref IBusBus (global_bus s1)])) \<and>
   (fst (ibus_dikt_init E ibus_mode s) \<noteq> 0 \<longrightarrow>
      (let s1 = snd (ibus_dikt_init E ibus_mode s)
       in trace (ibus_dikt_cleanup s1) = trace s1 @
            (if global_factory s \<noteq> NULL
             then [G_object_unref IBusFactory (global_factory s)] else []) @
            (if global_bus s \<noteq> NULL then [G_object_unref IBusBus (global_bus s)] else []) \<and>
          (global_factory s = NULL \<and> global_bus s = NULL \<longrightarrow> ibus_dikt_cleanup s1 = s1)))"
proof (intro conjI impI)
  show "let s1 = ibus_dikt_cleanup s
    in global_factory s1 = NULL \<and> global_bus s1 = NULL \<and>
       trace s1 = trace s @
         (if global_factory s \<noteq> NULL
          then [G_object_unref IBusFactory (global_factory s)] else []) @
         (if global_bus s \<noteq> NULL then [G_object_unref IBusBus (global_bus s)] else []) \<and>
       ibus_dikt_cleanup s1 = s1"
    unfolding Let_def using cleanup_trace [of s] cleanup_twice [of s] by simp
next
  assume ok: "fst (ibus_dikt_init E ibus_mode s) = 0"
  from init_ok_globals [OF ok]
  show "let s1 = snd (ibus_dikt_init E ibus_mode s)
       in global_factory s1 \<noteq> NULL \<and> global_bus s1 \<noteq> NULL \<and>
          trace (ibus_dikt_cleanup (ibus_dikt_cleanup s1)) =
            trace s1 @ [G_object_unref IBusFactory (global_factory s1),
                        G_object_unref IBusBus (global_bus s1)]"
    by (simp add: Let_def cleanup_twice cleanup_trace)
next
  assume failed: "fst (ibus_dikt_init E ibus_mode s) \<noteq> 0"
  define s1 where "s1 = snd (ibus_dikt_init E ibus_mode s)"
  have same: "s1 = s\<lparr>trace := trace s1\<rparr>"
    unfolding s1_def using failed by (rule init_failed_state)
  have bus: "global_bus s1 = global_bus s" and fac: "global_factory s1 = global_factory s"
    by (subst same, simp)+
  have "trace (ibus_dikt_cleanup s1) = trace s1 @
            (if global_factory s \<noteq> NULL
             then [G_object_unref IBusFactory (global_factory s)] else []) @
            (if global_bus s \<noteq> NULL then [G_object_unref IBusBus (global_bus s)] else [])"
    by (simp only: cleanup_trace bus fac)
  moreover have "global_factory s = NULL \<and> global_bus s = NULL \<longrightarrow> ibus_dikt_cleanup s1 = s1"
    using bus fac by (simp add: cleanup_nothing_held)
  ultimately show "let s1 = snd (ibus_dikt_init E ibus_mode s)
       in trace (ibus_dikt_cleanup s1) = trace s1 @
            (if global_factory s \<noteq> NULL
             then [G_object_unref IBusFactory (global_factory s)] else []) @
            (if global_bus s \<noteq> NULL then [G_object_unref IBusBus (global_bus s)] else []) \<and>
          (global_factory s = NULL \<and> global_bus s = NULL \<longrightarrow> ibus_dikt_cleanup s1 = s1)"
    unfolding s1_def [symmetric] Let_def by blast
qed

theorem cleanup_idempotent_witness:
  "trace (ibus_dikt_cleanup (ibus_dikt_cleanup
      (snd (ibus_dikt_init mock_env True (initial ()))))) =
     trace (snd (ibus_dikt_init mock_env True (initial ()))) @
       [G_object_unref IBusFactory (Ptr 3), G_object_unref IBusBus (Ptr 1)] \<and>
   ibus_dikt_cleanup
     (snd (ibus_dikt_init (mock_env\<lparr>bus_get_connection := \<lambda>t b. NULL\<rparr>) True (initial ()))) =
     snd (ibus_dikt_init (mock_env\<lparr>bus_get_connection := \<lambda>t b. NULL\<rparr>) True (initial ()))"
proof -
  let ?F = "mock_env\<lparr>bus_get_connection := \<lambda>t b. NULL\<rparr>"
  have ok: "fst (ibus_dikt_init mock_env True (initial ())) = 0"
    by (simp add: ibus_dikt_init_def mock_env_def Let_def)
  have handles:
    "global_factory (snd (ibus_dikt_init mock_env True (initial ()))) = Ptr 3"
    "global_bus (snd (ibus_dikt_init mock_env True (initial ()))) = Ptr 1"
    by (simp_all add: ibus_dikt_init_def ibus_dikt_init_publish_def mock_env_def Let_def
        emit_def)
  have failed: "fst (ibus_dikt_init ?F True (initial ())) \<noteq> 0"
    by (simp add: ibus_dikt_init_def mock_env_def Let_def)
  have fresh: "global_factory (initial ()) = NULL \<and> global_bus (initial ()) = NULL"
    by (simp add: initial_def)
  from cleanup_idempotent [of "initial ()" mock_env True] ok handles
  have once: "trace (ibus_dikt_cleanup (ibus_dikt_cleanup
      (snd (ibus_dikt_init mock_env True (initial ()))))) =
     trace (snd (ibus_dikt_init mock_env True (initial ()))) @
       [G_object_unref IBusFactory (Ptr 3), G_object_unref IBusBus (Ptr 1)]"
    by (simp add: Let_def)
  from cleanup_idempotent [of "initial ()" ?F True] failed fresh
  have "ibus_dikt_cleanup (snd (ibus_dikt_init ?F True (initial ()))) =
      snd (ibus_dikt_init ?F True (initial ()))"
    unfolding Let_def by blast
  with once show ?thesis
    by simp
qed

text \<open>
  C8. After a successful \<open>ibus_dikt_init\<close>, \<open>ibus_dikt_cleanup\<close> releases the
  published factory and the published bus and nulls both; from then on every
  \<open>ibus_dikt_set_global_engine\<close> returns \<open>FALSE\<close> and every
  \<open>ibus_dikt_get_global_engine_name\<close> returns null, however many such calls (and further
  cleanups) follow, and none of them changes the state.
\<close>

theorem cleanup_after_init:
  "fst (ibus_dikt_init E ibus_mode s) = 0 \<Longrightarrow>
   (let s1 = snd (ibus_dikt_init E ibus_mode s); s2 = ibus_dikt_cleanup s1
    in global_factory s1 \<noteq> NULL \<and> global_bus s1 \<noteq> NULL \<and>
       trace s2 = trace s1 @ [G_object_unref IBusFactory (global_factory s1),
                              G_object_unref IBusBus (global_bus s1)] \<and>
       global_factory s2 = NULL \<and> global_bus s2 = NULL \<and>
       (\<forall>E' engine_name. ibus_dikt_set_global_engine E' engine_name s2 = (FALSE, s2)) \<and>
       (\<forall>E'. ibus_dikt_get_global_engine_name E' s2 = (None, s2)) \<and>
       (\<forall>E' cs. run_cs E' cs s2 = (map refused cs, s2)))"
  using init_ok_globals [of E ibus_mode s]
  by (simp add: Let_def cleanup_trace set_global_engine_no_bus get_global_engine_name_no_bus
      run_cs_no_bus)

theorem cleanup_after_init_witness:
  "fst (ibus_dikt_init mock_env True (initial ())) = 0 \<and>
   fst (ibus_dikt_set_global_engine mock_env (Some ''dikt'')
     (snd (ibus_dikt_init mock_env True (initial ())))) = TRUE \<and>
   fst (ibus_dikt_get_global_engine_name mock_env
     (snd (ibus_dikt_init mock_env True (initial ())))) = Some ''xkb:us::eng'' \<and>
   fst (run_cs mock_env
     [Set_global_engine (Some ''dikt''), Get_global_engine_name, Cleanup,
      Set_global_engine None]
     (ibus_dikt_cleanup (snd (ibus_dikt_init mock_env True (initial ()))))) =
     [Set_returned FALSE, Get_returned None, Cleanup_returned, Set_returned FALSE] \<and>
   trace (ibus_dikt_cleanup (snd (ibus_dikt_init mock_env True (initial ())))) =
     trace (snd (ibus_dikt_init mock_env True (initial ()))) @
       [G_object_unref IBusFactory (Ptr 3), G_object_unref IBusBus (Ptr 1)]"
proof -
  have ok: "fst (ibus_dikt_init mock_env True (initial ())) = 0"
    by (simp add: ibus_dikt_init_def mock_env_def Let_def)
  have handles:
    "global_factory (snd (ibus_dikt_init mock_env True (initial ()))) = Ptr 3"
    "global_bus (snd (ibus_dikt_init mock_env True (initial ()))) = Ptr 1"
    by (simp_all add: ibus_dikt_init_def ibus_dikt_init_publish_def mock_env_def Let_def
        emit_def)
  have before:
    "fst (ibus_dikt_set_global_engine mock_env (Some ''dikt'')
       (snd (ibus_dikt_init mock_env True (initial ())))) = TRUE"
    "fst (ibus_dikt_get_global_engine_name mock_env
       (snd (ibus_dikt_init mock_env True (initial ())))) = Some ''xkb:us::eng''"
    by (simp_all add: ibus_dikt_set_global_engine_def ibus_dikt_get_global_engine_name_def
        read_global_engine_name_def handles Let_def, simp_all add: mock_env_def)
  from cleanup_after_init [OF ok] ok before handles show ?thesis
    by (simp add: Let_def)
qed

subsection \<open>Empty names on the main path\<close>

text \<open>
  C3. \<open>ibus_dikt_set_global_engine\<close> tests its name for null only. After a successful
  init against a library whose bus is connected and accepts every engine, the call with
  the empty string asks the bus whether it is connected, passes the empty name on to
  \<open>ibus_bus_set_global_engine\<close> and returns its \<open>TRUE\<close>; with a null name it returns
  \<open>FALSE\<close> and makes no call, as the daemon's variant does for the empty string too.
\<close>

theorem set_global_engine_empty_name:
  "fst (ibus_dikt_init mock_env True (initial ())) = 0 \<and>
   ibus_dikt_set_global_engine mock_env (Some '''')
       (snd (ibus_dikt_init mock_env True (initial ()))) =
     (TRUE, (snd (ibus_dikt_init mock_env True (initial ())))
        \<lparr>trace := trace (snd (ibus_dikt_init mock_env True (initial ()))) @
           [Ibus_bus_is_connected (Ptr 1) TRUE,
            Ibus_bus_set_global_engine (Ptr 1) '''' TRUE]\<rparr>) \<and>
   ibus_dikt_set_global_engine mock_env None
       (snd (ibus_dikt_init mock_env True (initial ()))) =
     (FALSE, snd (ibus_dikt_init mock_env True (initial ()))) \<and>
   ibus_dikt_daemon_set_global_engine mock_env (Some '''')
       (snd (ibus_dikt_init mock_env True (initial ()))) =
     (FALSE, snd (ibus_dikt_init mock_env True (initial ())))"
proof -
  have ok: "fst (ibus_dikt_init mock_env True (initial ())) = 0"
    by (simp add: ibus_dikt_init_def mock_env_def Let_def)
  have bus: "global_bus (snd (ibus_dikt_init mock_env True (initial ()))) = Ptr 1"
    by (simp add: ibus_dikt_init_def ibus_dikt_init_publish_def mock_env_def Let_def
        emit_def)
  have answers: "bus_is_connected mock_env t b = TRUE"
    "bus_set_global_engine mock_env t b n = TRUE" for t b n
    by (simp_all add: mock_env_def)
  show ?thesis
    by (simp add: ok bus answers ibus_dikt_set_global_engine_def
        ibus_dikt_daemon_set_global_engine_def strlen_def Let_def emit_def)
qed

subsection \<open>The daemon's bus cache\<close>

lemma buses_held_append [simp]: "buses_held (xs @ ys) = buses_held xs + buses_held ys"
  by (simp add: buses_held_def)

lemma buses_held_simps [simp]:
  "buses_held [] = 0" "buses_held (c # cs) = bus_delta c + buses_held cs"
  by (simp_all add: buses_held_def)

lemma held_peak_ge: "n \<le> held_peak n xs"
  by (induction xs arbitrary: n) (simp_all add: max.coboundedI1)

lemma held_peak_append:
  "held_peak n (xs @ ys) = max (held_peak n xs) (held_peak (n + buses_held xs) ys)"
proof (induction xs arbitrary: n)
  case Nil
  show ?case using held_peak_ge [of n ys] by simp
next
  case (Cons c cs)
  then show ?case by (simp add: add.assoc max.assoc)
qed

lemma held_peak_final: "n + buses_held xs \<le> held_peak n xs"
proof (induction xs arbitrary: n)
  case Nil
  show ?case by simp
next
  case (Cons c cs)
  from Cons [of "n + bus_delta c"] show ?case
    by (simp add: add.assoc max.coboundedI2)
qed

lemma bus_new_count_append [simp]:
  "bus_new_count (xs @ ys) = bus_new_count xs + bus_new_count ys"
  by (simp add: bus_new_count_def)

lemma bus_new_count_simps [simp]:
  "bus_new_count [] = 0"
  "bus_new_count (c # cs) = (if is_bus_new c then 1 else 0) + bus_new_count cs"
  by (simp_all add: bus_new_count_def)

lemma daemon_init_once_simps [simp]:
  "daemon_cached_bus (daemon_init_once s) = daemon_cached_bus s"
  "buses_held (trace (daemon_init_once s)) = buses_held (trace s)"
  "bus_new_count (trace (daemon_init_once s)) = bus_new_count (trace s)"
  "held_peak 0 (trace (daemon_init_once s)) = held_peak 0 (trace s)"
  using held_peak_final [of 0 "trace s"]
  by (simp_all add: daemon_init_once_def emit_def held_peak_append)

lemma held_peak_quiet:
  "\<forall>c\<in>set extra. bus_delta c = 0 \<Longrightarrow> held_peak n extra = n"
  by (induction extra arbitrary: n) simp_all

lemma buses_held_quiet:
  "\<forall>c\<in>set extra. bus_delta c = 0 \<Longrightarrow> buses_held extra = 0"
  by (induction extra) simp_all

lemma bus_new_count_quiet:
  "\<forall>c\<in>set extra. \<not> is_bus_new c \<Longrightarrow> bus_new_count extra = 0"
  by (induction extra) simp_all

lemma quiet_measures:
  assumes "\<forall>c\<in>set extra. bus_delta c = 0 \<and> \<not> is_bus_new c"
  shows "buses_held (t @ extra) = buses_held t"
    and "bus_new_count (t @ extra) = bus_new_count t"
    and "held_peak 0 (t @ extra) = held_peak 0 t"
proof -
  from assms have d: "\<forall>c\<in>set extra. bus_delta c = 0" and n: "\<forall>c\<in>set extra. \<not> is_bus_new c"
    by blast+
  show "buses_held (t @ extra) = buses_held t"
    by (simp add: buses_held_quiet [OF d])
  show "bus_new_count (t @ extra) = bus_new_count t"
    by (simp add: bus_new_count_quiet [OF n])
  show "held_peak 0 (t @ extra) = held_peak 0 t"
    using held_peak_final [of 0 t] by (simp add: held_peak_append held_peak_quiet [OF d])
qed

lemma read_global_engine_name_quiet:
  "daemon_cached_bus (snd (read_global_engine_name E bus s)) = daemon_cached_bus s \<and>
   (\<exists>extra. trace (snd (read_global_engine_name E bus s)) = trace s @ extra \<and>
      (\<forall>c\<in>set extra. bus_delta c = 0 \<and> \<not> is_bus_new c))"
  by (simp add: read_global_engine_name_def Let_def split: option.split)

lemma daemon_get_name_quiet:
  "daemon_cached_bus (snd (ibus_dikt_daemon_get_global_engine_name E s)) =
     daemon_cached_bus (snd (ibus_dikt_daemon_get_bus E s)) \<and>
   (\<exists>extra. trace (snd (ibus_dikt_daemon_get_global_engine_name E s)) =
        trace (snd (ibus_dikt_daemon_get_bus E s)) @ extra \<and>
      (\<forall>c\<in>set extra. bus_delta c = 0 \<and> \<not> is_bus_new c))"
  using read_global_engine_name_quiet
    [of E "fst (ibus_dikt_daemon_get_bus E s)" "snd (ibus_dikt_daemon_get_bus E s)"]
  by (simp add: ibus_dikt_daemon_get_global_engine_name_def case_prod_beta)

lemma daemon_set_quiet:
  "ibus_dikt_daemon_set_global_engine E engine_name s = (FALSE, s) \<or>
   daemon_cached_bus (snd (ibus_dikt_daemon_set_global_engine E engine_name s)) =
     daemon_cached_bus (snd (ibus_dikt_daemon_get_bus E s)) \<and>
   (\<exists>extra. trace (snd (ibus_dikt_daemon_set_global_engine E engine_name s)) =
        trace (snd (ibus_dikt_daemon_get_bus E s)) @ extra \<and>
      (\<forall>c\<in>set extra. bus_delta c = 0 \<and> \<not> is_bus_new c))"
  by (simp add: ibus_dikt_daemon_set_global_engine_def Let_def case_prod_beta
      split: option.split)

text \<open>A daemon operation either leaves the state alone or runs the accessor and then
  makes calls that neither create nor release a bus.\<close>

lemma daemon_step_quiet:
  "snd (daemon_step E c s) = s \<or>
   daemon_cached_bus (snd (daemon_step E c s)) =
     daemon_cached_bus (snd (ibus_dikt_daemon_get_bus E s)) \<and>
   (\<exists>extra. trace (snd (daemon_step E c s)) =
        trace (snd (ibus_dikt_daemon_get_bus E s)) @ extra \<and>
      (\<forall>c\<in>set extra. bus_delta c = 0 \<and> \<not> is_bus_new c))"
proof (cases c)
  case (Daemon_set_global_engine engine_name)
  with daemon_set_quiet [of E engine_name s] show ?thesis
    by (auto simp: case_prod_beta)
next
  case Daemon_get_global_engine_name
  with daemon_get_name_quiet [of E s] show ?thesis
    by (auto simp: case_prod_beta)
qed

lemma daemon_get_bus_cases:
  "let s0 = daemon_init_once s;
       b = daemon_cached_bus s;
       c = bus_is_connected E (trace s0) b;
       t1 = trace s0 @
         (if b = NULL then [] else [Ibus_bus_is_connected b c, G_object_unref IBusBus b]);
       fresh = bus_new E t1;
       t2 = t1 @ [Ibus_bus_new fresh];
       c' = bus_is_connected E t2 fresh;
       r = ibus_dikt_daemon_get_bus E s
   in (b \<noteq> NULL \<and> c \<noteq> FALSE \<longrightarrow>
         fst r = b \<and> daemon_cached_bus (snd r) = b \<and>
         trace (snd r) = trace s0 @ [Ibus_bus_is_connected b c]) \<and>
      ((b = NULL \<or> c = FALSE) \<and> fresh \<noteq> NULL \<and> c' \<noteq> FALSE \<longrightarrow>
         fst r = fresh \<and> daemon_cached_bus (snd r) = fresh \<and>
         trace (snd r) = t2 @ [Ibus_bus_is_connected fresh c']) \<and>
      ((b = NULL \<or> c = FALSE) \<and> (fresh = NULL \<or> c' = FALSE) \<longrightarrow>
         fst r = NULL \<and> daemon_cached_bus (snd r) = NULL \<and>
         trace (snd r) = t2 @
           (if fresh = NULL then []
            else [Ibus_bus_is_connected fresh c', G_object_unref IBusBus fresh]))"
  by (auto simp: ibus_dikt_daemon_get_bus_def Let_def emit_def)

lemma daemon_get_bus_inv:
  assumes "daemon_cache_inv s"
  shows "daemon_cache_inv (snd (ibus_dikt_daemon_get_bus E s))"
proof -
  from assms have held: "buses_held (trace (daemon_init_once s)) =
      (if daemon_cached_bus s = NULL then 0 else 1)"
    and peak: "held_peak 0 (trace (daemon_init_once s)) \<le> 1"
    by (simp_all add: daemon_cache_inv_def)
  from daemon_get_bus_cases [of s E] held peak show ?thesis
    unfolding Let_def daemon_cache_inv_def
    by (auto simp: held_peak_append split: if_splits)
qed

lemma daemon_step_inv:
  assumes "daemon_cache_inv s"
  shows "daemon_cache_inv (snd (daemon_step E c s))"
proof -
  from daemon_step_quiet [of E c s] show ?thesis
  proof
    assume "snd (daemon_step E c s) = s"
    with assms show ?thesis by simp
  next
    assume "daemon_cached_bus (snd (daemon_step E c s)) =
        daemon_cached_bus (snd (ibus_dikt_daemon_get_bus E s)) \<and>
      (\<exists>extra. trace (snd (daemon_step E c s)) =
          trace (snd (ibus_dikt_daemon_get_bus E s)) @ extra \<and>
        (\<forall>c\<in>set extra. bus_delta c = 0 \<and> \<not> is_bus_new c))"
    then obtain extra where
      cache: "daemon_cached_bus (snd (daemon_step E c s)) =
        daemon_cached_bus (snd (ibus_dikt_daemon_get_bus E s))" and
      tr: "trace (snd (daemon_step E c s)) =
        trace (snd (ibus_dikt_daemon_get_bus E s)) @ extra" and
      quiet: "\<forall>c\<in>set extra. bus_delta c = 0 \<and> \<not> is_bus_new c"
      by blast
    from daemon_get_bus_inv [OF assms, of E] show ?thesis
      by (simp add: daemon_cache_inv_def cache tr quiet_measures [OF quiet]
          del: buses_held_append)
  qed
qed

lemma run_daemon_inv:
  "daemon_cache_inv s \<Longrightarrow> daemon_cache_inv (snd (run_daemon E cs s))"
proof (induction cs arbitrary: s)
  case Nil
  then show ?case by simp
next
  case (Cons c cs)
  from Cons.IH [OF daemon_step_inv [OF Cons.prems, of E c]] show ?case
    by (simp add: case_prod_beta)
qed

lemma daemon_step_reuse:
  assumes "daemon_cached_bus s \<noteq> NULL"
    and "bus_is_connected E (trace (daemon_init_once s)) (daemon_cached_bus s) \<noteq> FALSE"
  shows "daemon_cached_bus (snd (daemon_step E c s)) = daemon_cached_bus s \<and>
    bus_new_count (trace (snd (daemon_step E c s))) = bus_new_count (trace s)"
proof -
  from daemon_get_bus_cases [of s E] assms
  have cache: "daemon_cached_bus (snd (ibus_dikt_daemon_get_bus E s)) = daemon_cached_bus s"
    and count: "bus_new_count (trace (snd (ibus_dikt_daemon_get_bus E s))) =
      bus_new_count (trace s)"
    by (simp_all add: Let_def)
  from daemon_step_quiet [of E c s] show ?thesis
  proof
    assume "snd (daemon_step E c s) = s"
    then show ?thesis by simp
  next
    assume "daemon_cached_bus (snd (daemon_step E c s)) =
        daemon_cached_bus (snd (ibus_dikt_daemon_get_bus E s)) \<and>
      (\<exists>extra. trace (snd (daemon_step E c s)) =
          trace (snd (ibus_dikt_daemon_get_bus E s)) @ extra \<and>
        (\<forall>c\<in>set extra. bus_delta c = 0 \<and> \<not> is_bus_new c))"
    then obtain extra where
      "daemon_cached_bus (snd (daemon_step E c s)) =
        daemon_cached_bus (snd (ibus_dikt_daemon_get_bus E s))" and
      "trace (snd (daemon_step E c s)) =
        trace (snd (ibus_dikt_daemon_get_bus E s)) @ extra" and
      quiet: "\<forall>c\<in>set extra. bus_delta c = 0 \<and> \<not> is_bus_new c"
      by blast
    with cache count quiet_measures(2) [OF quiet] show ?thesis
      by simp
  qed
qed

lemma daemon_ops_no_bus:
  assumes "fst (ibus_dikt_daemon_get_bus E s) = NULL"
  shows "fst (ibus_dikt_daemon_get_global_engine_name E s) = None \<and>
    fst (ibus_dikt_daemon_set_global_engine E engine_name s) = FALSE"
  using assms
  by (simp add: ibus_dikt_daemon_get_global_engine_name_def
      ibus_dikt_daemon_set_global_engine_def case_prod_beta split: option.split)

lemma daemon_init_once_state:
  "daemon_init_once s =
     (if daemon_ibus_initialized s = 0
      then s\<lparr>daemon_ibus_initialized := 1, trace := trace s @ [Ibus_init]\<rparr>
      else s)"
  by (simp add: daemon_init_once_def emit_def)

lemma daemon_get_bus_state:
  "snd (ibus_dikt_daemon_get_bus E s) =
     (daemon_init_once s)\<lparr>daemon_cached_bus := fst (ibus_dikt_daemon_get_bus E s),
        trace := trace (snd (ibus_dikt_daemon_get_bus E s))\<rparr>"
  by (simp add: ibus_dikt_daemon_get_bus_def Let_def emit_def)

lemma daemon_set_on_handle:
  assumes "strlen name \<noteq> 0"
  shows "ibus_dikt_daemon_set_global_engine E (Some name) s =
     (if fst (ibus_dikt_daemon_get_bus E s) = NULL
      then (FALSE, snd (ibus_dikt_daemon_get_bus E s))
      else (bus_set_global_engine E (trace (snd (ibus_dikt_daemon_get_bus E s)))
              (fst (ibus_dikt_daemon_get_bus E s)) name,
            (snd (ibus_dikt_daemon_get_bus E s))
              \<lparr>trace := trace (snd (ibus_dikt_daemon_get_bus E s)) @
                 [Ibus_bus_set_global_engine (fst (ibus_dikt_daemon_get_bus E s)) name
                    (bus_set_global_engine E (trace (snd (ibus_dikt_daemon_get_bus E s)))
                       (fst (ibus_dikt_daemon_get_bus E s)) name)]\<rparr>))"
  using assms
  by (simp add: ibus_dikt_daemon_set_global_engine_def Let_def emit_def case_prod_beta)

lemma daemon_get_name_on_handle:
  "ibus_dikt_daemon_get_global_engine_name E s =
     (let bus = fst (ibus_dikt_daemon_get_bus E s);
          s1 = snd (ibus_dikt_daemon_get_bus E s);
          desc = bus_get_global_engine E (trace s1) bus;
          t2 = trace s1 @ [Ibus_bus_get_global_engine bus desc];
          nm = engine_desc_get_name E t2 desc
      in if bus = NULL then (None, s1)
         else if desc = NULL then (None, s1\<lparr>trace := t2\<rparr>)
         else (nm, s1\<lparr>trace := t2 @ [Ibus_engine_desc_get_name desc nm] @
                 (case nm of None \<Rightarrow> [] | Some n \<Rightarrow> [G_strdup n]) @
                 [G_object_unref IBusEngineDesc desc]\<rparr>))"
  by (simp add: ibus_dikt_daemon_get_global_engine_name_def read_global_engine_name_def
      Let_def emit_def case_prod_beta split: option.split)

lemma flaky_run:
  "run_daemon flaky_env
     [Daemon_set_global_engine (Some ''dikt''), Daemon_set_global_engine (Some ''dikt''),
      Daemon_set_global_engine (Some ''dikt'')] (initial ()) =
   ([Daemon_set_returned TRUE, Daemon_set_returned TRUE, Daemon_set_returned TRUE],
    (initial ())\<lparr>daemon_ibus_initialized := 1, daemon_cached_bus := Ptr 2,
      trace := [Ibus_init, Ibus_bus_new (Ptr 1), Ibus_bus_is_connected (Ptr 1) TRUE,
        Ibus_bus_set_global_engine (Ptr 1) ''dikt'' TRUE,
        Ibus_bus_is_connected (Ptr 1) TRUE,
        Ibus_bus_set_global_engine (Ptr 1) ''dikt'' TRUE,
        Ibus_bus_is_connected (Ptr 1) FALSE, G_object_unref IBusBus (Ptr 1),
        Ibus_bus_new (Ptr 2), Ibus_bus_is_connected (Ptr 2) TRUE,
        Ibus_bus_set_global_engine (Ptr 2) ''dikt'' TRUE]\<rparr>)"
  by (simp add: ibus_dikt_daemon_set_global_engine_def ibus_dikt_daemon_get_bus_def
      daemon_init_once_def flaky_env_def mock_env_def initial_def strlen_def emit_def Let_def)

text \<open>The state a daemon process is in after its first successful call on
  \<open>mock_env\<close>: initialised, with the bus \<open>Ptr 1\<close> cached.\<close>

lemma first_get_name:
  "ibus_dikt_daemon_get_global_engine_name mock_env (initial ()) =
     (Some ''xkb:us::eng'',
      (initial ())\<lparr>daemon_ibus_initialized := 1, daemon_cached_bus := Ptr 1,
        trace := [Ibus_init, Ibus_bus_new (Ptr 1), Ibus_bus_is_connected (Ptr 1) TRUE,
          Ibus_bus_get_global_engine (Ptr 1) (Ptr 6),
          Ibus_engine_desc_get_name (Ptr 6) (Some ''xkb:us::eng''),
          G_strdup ''xkb:us::eng'', G_object_unref IBusEngineDesc (Ptr 6)]\<rparr>)"
  by (simp add: ibus_dikt_daemon_get_global_engine_name_def read_global_engine_name_def
      ibus_dikt_daemon_get_bus_def daemon_init_once_def mock_env_def initial_def emit_def
      Let_def)

text \<open>
  C4. One call of \<open>ibus_dikt_daemon_get_bus\<close>, from any state:
  \<^item> a cached bus that reports connected is returned and stays cached, the only call
    made is the connection test, and so every daemon operation from such a state leaves
    the cache and the number of \<open>ibus_bus_new\<close> calls as they were;
  \<^item> otherwise a cached bus is released, a new bus is requested, and if that one is
    non-null and connected it is cached and returned;
  \<^item> if it is null, or not connected (then it is released), the cache is left null, null
    is returned, \<open>ibus_dikt_daemon_get_global_engine_name\<close> returns null and
    \<open>ibus_dikt_daemon_set_global_engine\<close> returns \<open>FALSE\<close>; the next call starts from an
    empty cache and so requests a bus again.
  In every case the call changes nothing but the one-time latch (set, with
  \<open>ibus_init\<close> called, only when it was 0), the cache, which becomes the bus returned,
  and the trace.
  Both daemon operations go through that call: \<open>ibus_dikt_daemon_set_global_engine\<close>
  with a non-empty name and \<open>ibus_dikt_daemon_get_global_engine_name\<close> leave exactly
  the state of the accessor when it returns null, and otherwise extend the accessor's
  trace with their library calls on the bus it returned
  (\<open>ibus_bus_set_global_engine\<close>; \<open>ibus_bus_get_global_engine\<close> and, for a non-null
  description, the reading, copying and release of its name) and return what the library
  answered. So reuse, replacement of a stale handle and retry after a failure hold for
  the operations as they do for the accessor.
  Over any sequence of daemon operations from the initial state the cache holds a bus
  exactly when one handle is outstanding, and at no point of the trace are two handles
  outstanding.
\<close>

theorem daemon_bus_cache:
  "(let s0 = daemon_init_once s;
        b = daemon_cached_bus s;
        c = bus_is_connected E (trace s0) b;
        t1 = trace s0 @
          (if b = NULL then [] else [Ibus_bus_is_connected b c, G_object_unref IBusBus b]);
        fresh = bus_new E t1;
        t2 = t1 @ [Ibus_bus_new fresh];
        c' = bus_is_connected E t2 fresh;
        r = ibus_dikt_daemon_get_bus E s
    in (b \<noteq> NULL \<and> c \<noteq> FALSE \<longrightarrow>
          fst r = b \<and> daemon_cached_bus (snd r) = b \<and>
          trace (snd r) = trace s0 @ [Ibus_bus_is_connected b c] \<and>
          (\<forall>op. daemon_cached_bus (snd (daemon_step E op s)) = b \<and>
             bus_new_count (trace (snd (daemon_step E op s))) = bus_new_count (trace s))) \<and>
       ((b = NULL \<or> c = FALSE) \<and> fresh \<noteq> NULL \<and> c' \<noteq> FALSE \<longrightarrow>
          fst r = fresh \<and> daemon_cached_bus (snd r) = fresh \<and>
          trace (snd r) = t2 @ [Ibus_bus_is_connected fresh c']) \<and>
       ((b = NULL \<or> c = FALSE) \<and> (fresh = NULL \<or> c' = FALSE) \<longrightarrow>
          fst r = NULL \<and> daemon_cached_bus (snd r) = NULL \<and>
          trace (snd r) = t2 @
            (if fresh = NULL then []
             else [Ibus_bus_is_connected fresh c', G_object_unref IBusBus fresh]) \<and>
          fst (ibus_dikt_daemon_get_global_engine_name E s) = None \<and>
          (\<forall>engine_name. fst (ibus_dikt_daemon_set_global_engine E engine_name s) = FALSE)) \<and>
       s0 = (if daemon_ibus_initialized s = 0
             then s\<lparr>daemon_ibus_initialized := 1, trace := trace s @ [Ibus_init]\<rparr>
             else s) \<and>
       snd r = s0\<lparr>daemon_cached_bus := fst r, trace := trace (snd r)\<rparr> \<and>
       (\<forall>name. strlen name \<noteq> 0 \<longrightarrow>
          ibus_dikt_daemon_set_global_engine E (Some name) s =
            (if fst r = NULL then (FALSE, snd r)
             else (bus_set_global_engine E (trace (snd r)) (fst r) name,
                   (snd r)\<lparr>trace := trace (snd r) @
                     [Ibus_bus_set_global_engine (fst r) name
                        (bus_set_global_engine E (trace (snd r)) (fst r) name)]\<rparr>))) \<and>
       (let desc = bus_get_global_engine E (trace (snd r)) (fst r);
            t3 = trace (snd r) @ [Ibus_bus_get_global_engine (fst r) desc];
            nm = engine_desc_get_name E t3 desc
        in ibus_dikt_daemon_get_global_engine_name E s =
             (if fst r = NULL then (None, snd r)
              else if desc = NULL then (None, (snd r)\<lparr>trace := t3\<rparr>)
              else (nm, (snd r)\<lparr>trace := t3 @ [Ibus_engine_desc_get_name desc nm] @
                      (case nm of None \<Rightarrow> [] | Some n \<Rightarrow> [G_strdup n]) @
                      [G_object_unref IBusEngineDesc desc]\<rparr>)))) \<and>
   daemon_cache_inv (initial h) \<and>
   (daemon_cache_inv s \<longrightarrow>
      (\<forall>ops. daemon_cache_inv (snd (run_daemon E ops s)) \<and>
         held_peak 0 (trace (snd (run_daemon E ops s))) \<le> 1))"
proof -
  note accessor = daemon_get_bus_cases [of s E, unfolded Let_def]
  note reuse = daemon_step_reuse [of s E]
  note refused = daemon_ops_no_bus [of E s]
  note once = daemon_init_once_state [of s]
  note whole = daemon_get_bus_state [of E s]
  note set_op = daemon_set_on_handle [of _ E s]
  note get_op = daemon_get_name_on_handle [of E s, unfolded Let_def]
  have start: "daemon_cache_inv (initial h)"
    by (simp add: daemon_cache_inv_def initial_def)
  have kept: "daemon_cache_inv s \<longrightarrow>
      (\<forall>ops. daemon_cache_inv (snd (run_daemon E ops s)) \<and>
         held_peak 0 (trace (snd (run_daemon E ops s))) \<le> 1)"
    using run_daemon_inv [of s E] by (simp add: daemon_cache_inv_def)
  show ?thesis
    unfolding Let_def
    apply (intro conjI)
    subgoal using accessor reuse by blast
    subgoal using accessor by blast
    subgoal using accessor refused by blast
    subgoal by (rule once)
    subgoal by (rule whole)
    subgoal using set_op by blast
    subgoal by (rule get_op)
    subgoal by (rule start)
    subgoal by (rule kept)
    done
qed

theorem daemon_bus_cache_witness:
  "fst (run_daemon flaky_env
     [Daemon_set_global_engine (Some ''dikt''), Daemon_set_global_engine (Some ''dikt''),
      Daemon_set_global_engine (Some ''dikt'')] (initial ())) =
     [Daemon_set_returned TRUE, Daemon_set_returned TRUE, Daemon_set_returned TRUE] \<and>
   trace (snd (run_daemon flaky_env
     [Daemon_set_global_engine (Some ''dikt''), Daemon_set_global_engine (Some ''dikt''),
      Daemon_set_global_engine (Some ''dikt'')] (initial ()))) =
     [Ibus_init, Ibus_bus_new (Ptr 1), Ibus_bus_is_connected (Ptr 1) TRUE,
      Ibus_bus_set_global_engine (Ptr 1) ''dikt'' TRUE,
      Ibus_bus_is_connected (Ptr 1) TRUE,
      Ibus_bus_set_global_engine (Ptr 1) ''dikt'' TRUE,
      Ibus_bus_is_connected (Ptr 1) FALSE, G_object_unref IBusBus (Ptr 1),
      Ibus_bus_new (Ptr 2), Ibus_bus_is_connected (Ptr 2) TRUE,
      Ibus_bus_set_global_engine (Ptr 2) ''dikt'' TRUE] \<and>
   daemon_cache_inv (snd (run_daemon flaky_env
     [Daemon_set_global_engine (Some ''dikt''), Daemon_set_global_engine (Some ''dikt''),
      Daemon_set_global_engine (Some ''dikt'')] (initial ()))) \<and>
   ibus_dikt_daemon_get_bus (mock_env\<lparr>bus_is_connected := \<lambda>t b. FALSE\<rparr>) (initial ()) =
     (NULL, (initial ())\<lparr>daemon_ibus_initialized := 1,
        trace := [Ibus_init, Ibus_bus_new (Ptr 1), Ibus_bus_is_connected (Ptr 1) FALSE,
          G_object_unref IBusBus (Ptr 1)]\<rparr>) \<and>
   fst (ibus_dikt_daemon_get_global_engine_name
     (mock_env\<lparr>bus_is_connected := \<lambda>t b. FALSE\<rparr>) (initial ())) = None \<and>
   run_daemon mock_env [Daemon_get_global_engine_name, Daemon_get_global_engine_name]
       (initial ()) =
     ([Daemon_get_returned (Some ''xkb:us::eng''), Daemon_get_returned (Some ''xkb:us::eng'')],
      (initial ())\<lparr>daemon_ibus_initialized := 1, daemon_cached_bus := Ptr 1,
        trace := [Ibus_init, Ibus_bus_new (Ptr 1), Ibus_bus_is_connected (Ptr 1) TRUE,
          Ibus_bus_get_global_engine (Ptr 1) (Ptr 6),
          Ibus_engine_desc_get_name (Ptr 6) (Some ''xkb:us::eng''),
          G_strdup ''xkb:us::eng'', G_object_unref IBusEngineDesc (Ptr 6),
          Ibus_bus_is_connected (Ptr 1) TRUE,
          Ibus_bus_get_global_engine (Ptr 1) (Ptr 6),
          Ibus_engine_desc_get_name (Ptr 6) (Some ''xkb:us::eng''),
          G_strdup ''xkb:us::eng'', G_object_unref IBusEngineDesc (Ptr 6)]\<rparr>) \<and>
   run_daemon flaky_env [Daemon_get_global_engine_name, Daemon_get_global_engine_name]
       (initial ()) =
     ([Daemon_get_returned (Some ''xkb:us::eng''), Daemon_get_returned (Some ''xkb:us::eng'')],
      (initial ())\<lparr>daemon_ibus_initialized := 1, daemon_cached_bus := Ptr 2,
        trace := [Ibus_init, Ibus_bus_new (Ptr 1), Ibus_bus_is_connected (Ptr 1) TRUE,
          Ibus_bus_get_global_engine (Ptr 1) (Ptr 6),
          Ibus_engine_desc_get_name (Ptr 6) (Some ''xkb:us::eng''),
          G_strdup ''xkb:us::eng'', G_object_unref IBusEngineDesc (Ptr 6),
          Ibus_bus_is_connected (Ptr 1) FALSE, G_object_unref IBusBus (Ptr 1),
          Ibus_bus_new (Ptr 2), Ibus_bus_is_connected (Ptr 2) TRUE,
          Ibus_bus_get_global_engine (Ptr 2) (Ptr 6),
          Ibus_engine_desc_get_name (Ptr 6) (Some ''xkb:us::eng''),
          G_strdup ''xkb:us::eng'', G_object_unref IBusEngineDesc (Ptr 6)]\<rparr>)"
proof -
  let ?D = "mock_env\<lparr>bus_is_connected := \<lambda>t b. FALSE\<rparr>"
  let ?t1 = "[Ibus_init, Ibus_bus_new (Ptr 1), Ibus_bus_is_connected (Ptr 1) TRUE,
          Ibus_bus_get_global_engine (Ptr 1) (Ptr 6),
          Ibus_engine_desc_get_name (Ptr 6) (Some ''xkb:us::eng''),
          G_strdup ''xkb:us::eng'', G_object_unref IBusEngineDesc (Ptr 6)]"
  let ?s1 = "(initial ())\<lparr>daemon_ibus_initialized := 1, daemon_cached_bus := Ptr 1,
        trace := ?t1\<rparr>"
  note cache = daemon_bus_cache [of "initial ()" flaky_env "()", unfolded Let_def]
  from cache have "daemon_cache_inv (initial ())"
    by blast
  with cache have inv: "daemon_cache_inv (snd (run_daemon flaky_env
     [Daemon_set_global_engine (Some ''dikt''), Daemon_set_global_engine (Some ''dikt''),
      Daemon_set_global_engine (Some ''dikt'')] (initial ())))"
    by blast
  have down: "ibus_dikt_daemon_get_bus ?D (initial ()) =
     (NULL, (initial ())\<lparr>daemon_ibus_initialized := 1,
        trace := [Ibus_init, Ibus_bus_new (Ptr 1), Ibus_bus_is_connected (Ptr 1) FALSE,
          G_object_unref IBusBus (Ptr 1)]\<rparr>)"
    by (simp add: ibus_dikt_daemon_get_bus_def daemon_init_once_def mock_env_def initial_def
        emit_def Let_def)
  have empty: "daemon_cached_bus (initial ()) = NULL"
    by (simp add: initial_def)
  have answer: "bus_is_connected ?D t b = FALSE" for t b
    by (simp add: mock_env_def)
  from daemon_bus_cache [of "initial ()" ?D "()", unfolded Let_def] empty answer
  have none: "fst (ibus_dikt_daemon_get_global_engine_name ?D (initial ())) = None"
    by simp
  text \<open>The second call on the connected library, read off the theorem at the state the
    first call leaves.\<close>
  note at1 = daemon_bus_cache [of ?s1 mock_env "()", unfolded Let_def]
  have pre: "daemon_cached_bus ?s1 = Ptr 1" "daemon_init_once ?s1 = ?s1"
    "bus_is_connected mock_env t b = TRUE" for t b
    by (simp_all add: daemon_init_once_def mock_env_def)
  from at1 have hit: "Ptr 1 \<noteq> NULL \<and> TRUE \<noteq> FALSE \<longrightarrow>
      fst (ibus_dikt_daemon_get_bus mock_env ?s1) = Ptr 1 \<and>
      trace (snd (ibus_dikt_daemon_get_bus mock_env ?s1)) =
        ?t1 @ [Ibus_bus_is_connected (Ptr 1) TRUE]"
    unfolding pre by simp
  then have handle: "fst (ibus_dikt_daemon_get_bus mock_env ?s1) = Ptr 1"
    and tr: "trace (snd (ibus_dikt_daemon_get_bus mock_env ?s1)) =
        ?t1 @ [Ibus_bus_is_connected (Ptr 1) TRUE]"
    by simp_all
  from at1 have "snd (ibus_dikt_daemon_get_bus mock_env ?s1) =
      (daemon_init_once ?s1)\<lparr>daemon_cached_bus := fst (ibus_dikt_daemon_get_bus mock_env ?s1),
        trace := trace (snd (ibus_dikt_daemon_get_bus mock_env ?s1))\<rparr>"
    by blast
  then have whole: "snd (ibus_dikt_daemon_get_bus mock_env ?s1) =
      ?s1\<lparr>trace := ?t1 @ [Ibus_bus_is_connected (Ptr 1) TRUE]\<rparr>"
    unfolding pre handle tr by simp
  from at1 have "ibus_dikt_daemon_get_global_engine_name mock_env ?s1 =
     (if fst (ibus_dikt_daemon_get_bus mock_env ?s1) = NULL
      then (None, snd (ibus_dikt_daemon_get_bus mock_env ?s1))
      else if bus_get_global_engine mock_env
                (trace (snd (ibus_dikt_daemon_get_bus mock_env ?s1)))
                (fst (ibus_dikt_daemon_get_bus mock_env ?s1)) = NULL
      then (None, (snd (ibus_dikt_daemon_get_bus mock_env ?s1))
             \<lparr>trace := trace (snd (ibus_dikt_daemon_get_bus mock_env ?s1)) @
                [Ibus_bus_get_global_engine (fst (ibus_dikt_daemon_get_bus mock_env ?s1))
                   (bus_get_global_engine mock_env
                      (trace (snd (ibus_dikt_daemon_get_bus mock_env ?s1)))
                      (fst (ibus_dikt_daemon_get_bus mock_env ?s1)))]\<rparr>)
      else (engine_desc_get_name mock_env
              (trace (snd (ibus_dikt_daemon_get_bus mock_env ?s1)) @
                [Ibus_bus_get_global_engine (fst (ibus_dikt_daemon_get_bus mock_env ?s1))
                   (bus_get_global_engine mock_env
                      (trace (snd (ibus_dikt_daemon_get_bus mock_env ?s1)))
                      (fst (ibus_dikt_daemon_get_bus mock_env ?s1)))])
              (bus_get_global_engine mock_env
                 (trace (snd (ibus_dikt_daemon_get_bus mock_env ?s1)))
                 (fst (ibus_dikt_daemon_get_bus mock_env ?s1))),
            (snd (ibus_dikt_daemon_get_bus mock_env ?s1))
             \<lparr>trace := (trace (snd (ibus_dikt_daemon_get_bus mock_env ?s1)) @
                [Ibus_bus_get_global_engine (fst (ibus_dikt_daemon_get_bus mock_env ?s1))
                   (bus_get_global_engine mock_env
                      (trace (snd (ibus_dikt_daemon_get_bus mock_env ?s1)))
                      (fst (ibus_dikt_daemon_get_bus mock_env ?s1)))]) @
                [Ibus_engine_desc_get_name
                   (bus_get_global_engine mock_env
                      (trace (snd (ibus_dikt_daemon_get_bus mock_env ?s1)))
                      (fst (ibus_dikt_daemon_get_bus mock_env ?s1)))
                   (engine_desc_get_name mock_env
                      (trace (snd (ibus_dikt_daemon_get_bus mock_env ?s1)) @
                        [Ibus_bus_get_global_engine
                           (fst (ibus_dikt_daemon_get_bus mock_env ?s1))
                           (bus_get_global_engine mock_env
                              (trace (snd (ibus_dikt_daemon_get_bus mock_env ?s1)))
                              (fst (ibus_dikt_daemon_get_bus mock_env ?s1)))])
                      (bus_get_global_engine mock_env
                         (trace (snd (ibus_dikt_daemon_get_bus mock_env ?s1)))
                         (fst (ibus_dikt_daemon_get_bus mock_env ?s1))))] @
                (case engine_desc_get_name mock_env
                      (trace (snd (ibus_dikt_daemon_get_bus mock_env ?s1)) @
                        [Ibus_bus_get_global_engine
                           (fst (ibus_dikt_daemon_get_bus mock_env ?s1))
                           (bus_get_global_engine mock_env
                              (trace (snd (ibus_dikt_daemon_get_bus mock_env ?s1)))
                              (fst (ibus_dikt_daemon_get_bus mock_env ?s1)))])
                      (bus_get_global_engine mock_env
                         (trace (snd (ibus_dikt_daemon_get_bus mock_env ?s1)))
                         (fst (ibus_dikt_daemon_get_bus mock_env ?s1))) of
                   None \<Rightarrow> [] | Some n \<Rightarrow> [G_strdup n]) @
                [G_object_unref IBusEngineDesc
                   (bus_get_global_engine mock_env
                      (trace (snd (ibus_dikt_daemon_get_bus mock_env ?s1)))
                      (fst (ibus_dikt_daemon_get_bus mock_env ?s1)))]\<rparr>))"
    by blast
  then have second: "ibus_dikt_daemon_get_global_engine_name mock_env ?s1 =
     (Some ''xkb:us::eng'',
      ?s1\<lparr>trace := ?t1 @ [Ibus_bus_is_connected (Ptr 1) TRUE,
          Ibus_bus_get_global_engine (Ptr 1) (Ptr 6),
          Ibus_engine_desc_get_name (Ptr 6) (Some ''xkb:us::eng''),
          G_strdup ''xkb:us::eng'', G_object_unref IBusEngineDesc (Ptr 6)]\<rparr>)"
    unfolding handle whole by (simp add: mock_env_def)
  have twice: "run_daemon mock_env
      [Daemon_get_global_engine_name, Daemon_get_global_engine_name] (initial ()) =
     ([Daemon_get_returned (Some ''xkb:us::eng''), Daemon_get_returned (Some ''xkb:us::eng'')],
      ?s1\<lparr>trace := ?t1 @ [Ibus_bus_is_connected (Ptr 1) TRUE,
          Ibus_bus_get_global_engine (Ptr 1) (Ptr 6),
          Ibus_engine_desc_get_name (Ptr 6) (Some ''xkb:us::eng''),
          G_strdup ''xkb:us::eng'', G_object_unref IBusEngineDesc (Ptr 6)]\<rparr>)"
    by (simp only: run_daemon.simps daemon_step.simps first_get_name second prod.case)
  have stale: "run_daemon flaky_env
      [Daemon_get_global_engine_name, Daemon_get_global_engine_name] (initial ()) =
     ([Daemon_get_returned (Some ''xkb:us::eng''), Daemon_get_returned (Some ''xkb:us::eng'')],
      (initial ())\<lparr>daemon_ibus_initialized := 1, daemon_cached_bus := Ptr 2,
        trace := [Ibus_init, Ibus_bus_new (Ptr 1), Ibus_bus_is_connected (Ptr 1) TRUE,
          Ibus_bus_get_global_engine (Ptr 1) (Ptr 6),
          Ibus_engine_desc_get_name (Ptr 6) (Some ''xkb:us::eng''),
          G_strdup ''xkb:us::eng'', G_object_unref IBusEngineDesc (Ptr 6),
          Ibus_bus_is_connected (Ptr 1) FALSE, G_object_unref IBusBus (Ptr 1),
          Ibus_bus_new (Ptr 2), Ibus_bus_is_connected (Ptr 2) TRUE,
          Ibus_bus_get_global_engine (Ptr 2) (Ptr 6),
          Ibus_engine_desc_get_name (Ptr 6) (Some ''xkb:us::eng''),
          G_strdup ''xkb:us::eng'', G_object_unref IBusEngineDesc (Ptr 6)]\<rparr>)"
    by (simp add: ibus_dikt_daemon_get_global_engine_name_def read_global_engine_name_def
        ibus_dikt_daemon_get_bus_def daemon_init_once_def flaky_env_def mock_env_def
        initial_def emit_def Let_def)
  from inv down none twice stale show ?thesis
    unfolding flaky_run by simp
qed

end
